theory Spec2Isabelle
  imports Main
begin

section \<open>Data model of the editor component (frontend/src/Editor.js)\<close>

text \<open>
  JavaScript strings are modelled as \<^typ>\<open>string\<close>, one \<^typ>\<open>char\<close> per code unit
  (code units above 255 are outside the model). Version ids are JavaScript numbers that
  the component only ever compares and increments by one; they are modelled as
  \<^typ>\<open>int\<close>, which is exact for every integer a double represents exactly (up to
  \<open>2^53\<close>). A blob URL handed out by \<^verbatim>\<open>URL.createObjectURL\<close> is a string.
\<close>

type_synonym url = string

text \<open>An element of \<^verbatim>\<open>codeHistory\<close>: \<^verbatim>\<open>{ id, code }\<close>.\<close>

record version_entry =
  entry_id :: int
  entry_code :: string

text \<open>
  An element of \<^verbatim>\<open>chatMessages\<close>: \<^verbatim>\<open>{ role, content, codeVersionId }\<close>. The last
  property is absent (\<^verbatim>\<open>undefined\<close>) on the objects that are built without it.
\<close>

record chat_message =
  role :: string
  content :: string
  codeVersionId :: "int option"

text \<open>
  The \<^verbatim>\<open>useState\<close> cells of the component, with the route parameter \<^verbatim>\<open>id\<close>
  (\<open>docId\<close>; \<open>None\<close> is \<^verbatim>\<open>undefined\<close>). \<open>resumeFile\<close> holds the name of the
  chosen file and \<open>selectedTemplate\<close> the id of the chosen template.
\<close>

record editor =
  docId :: "string option"
  step :: nat
  isFetchingInitialData :: bool
  selectedTemplate :: "string option"
  resumeFile :: "string option"
  htmlCode :: string
  extractedContext :: string
  pdfUrl :: "url option"
  resumeTitle :: string
  chatMessages :: "chat_message list"
  userPrompt :: string
  codeHistory :: "version_entry list"
  currentCodeVersionId :: int
  isProcessing :: bool
  isGenerationDone :: bool
  isGeneratingPreview :: bool
  isModifying :: bool
  isSaving :: bool

text \<open>The state a freshly mounted component starts in, for route parameter \<open>i\<close>.\<close>

definition initial_editor :: "string option \<Rightarrow> editor" where
  "initial_editor i =
     \<lparr> docId = i, step = 1, isFetchingInitialData = True, selectedTemplate = None,
       resumeFile = None, htmlCode = [], extractedContext = [], pdfUrl = None,
       resumeTitle = ''Untitled Resume'', chatMessages = [], userPrompt = [],
       codeHistory = [], currentCodeVersionId = 1, isProcessing = False,
       isGenerationDone = False, isGeneratingPreview = False, isModifying = False,
       isSaving = False \<rparr>"

subsection \<open>Requests, responses and observable effects\<close>

text \<open>Body of \<^verbatim>\<open>POST /modify-resume\<close>; the history holds \<^verbatim>\<open>{ role, content }\<close> pairs.\<close>

record modify_request =
  req_html_code :: string
  req_prompt :: string
  req_history :: "(string \<times> string) list"
  req_extracted_data :: string

text \<open>\<^verbatim>\<open>response.data\<close> of \<^verbatim>\<open>POST /modify-resume\<close>.\<close>

record modify_response =
  resp_success :: bool
  resp_html_code :: string
  resp_reply_text :: string

text \<open>\<^verbatim>\<open>response.data\<close> of \<^verbatim>\<open>POST /process_html\<close>; the last two may be absent.\<close>

record process_response =
  proc_success :: bool
  proc_html_code :: string
  proc_extracted_data :: "string option"
  proc_error :: "string option"

text \<open>A row of the \<^verbatim>\<open>resumes\<close> table as \<^verbatim>\<open>fetchResumeData\<close> reads it.\<close>

record resume_row =
  row_title :: "string option"
  row_html_content :: "string option"
  row_version :: int

text \<open>
  What the component does to the outside world, in the order it does it. The
  \<^verbatim>\<open>updated_at\<close> column of a database update is the wall clock and is left out.
\<close>

datatype event =
    RevokeObjectURL url
  | CreateObjectURL url
  | PostProcessHtml string string
  | PostPreviewPdf string
  | PostModifyResume modify_request
  | SelectResume string
  | UpdateResume string string int "string option"
  | ConsoleError string
  | Alert string

text \<open>
  How a call through \<^verbatim>\<open>secureApiRequest\<close> ends: \<^verbatim>\<open>session.getToken()\<close> throws before
  anything is sent, or axios throws (network, timeout, error status), or a response
  arrives.
\<close>

datatype 'a api_result = TokenError | RequestError | Response 'a

text \<open>
  How a Supabase query ends: \<^verbatim>\<open>getAuthenticatedSupabase\<close> throws (both token
  requests fail), or the query returns \<^verbatim>\<open>{ error }\<close>, or it returns \<^verbatim>\<open>{ data }\<close>.
\<close>

datatype 'a db_result = AuthThrows | DbError | DbData 'a

text \<open>
  Calls that a handler starts without awaiting them: \<^verbatim>\<open>updatePdfPreview(code)\<close> and
  \<^verbatim>\<open>saveResume(html, version)\<close>.
\<close>

datatype call = UpdatePdfPreview string | SaveResume string int "string option"

section \<open>Helpers of the JavaScript runtime\<close>

definition is_js_whitespace :: "char \<Rightarrow> bool" where
  "is_js_whitespace c =
     (c \<in> set [CHR 0x09, CHR 0x0A, CHR 0x0B, CHR 0x0C, CHR 0x0D, CHR 0x20, CHR 0xA0])"

text \<open>\<^verbatim>\<open>String.prototype.trim\<close>.\<close>

definition js_trim :: "string \<Rightarrow> string" where
  "js_trim s = rev (dropWhile is_js_whitespace (rev (dropWhile is_js_whitespace s)))"

text \<open>
  \<^verbatim>\<open>a || b\<close> for a string \<open>a\<close> that may be \<^verbatim>\<open>null\<close> or \<^verbatim>\<open>undefined\<close>: \<open>b\<close> when
  \<open>a\<close> is absent or empty.
\<close>

definition js_or :: "string option \<Rightarrow> string \<Rightarrow> string" where
  "js_or a b = (case a of None \<Rightarrow> b | Some t \<Rightarrow> if t = [] then b else t)"

text \<open>\<^verbatim>\<open>Array.prototype.findIndex\<close>: the first index that satisfies \<open>P\<close>, or \<open>-1\<close>.\<close>

fun findIndex :: "('a \<Rightarrow> bool) \<Rightarrow> 'a list \<Rightarrow> int" where
  "findIndex P [] = -1"
| "findIndex P (x # xs) =
     (if P x then 0 else (let i = findIndex P xs in if i < 0 then -1 else i + 1))"

text \<open>\<^verbatim>\<open>Array.prototype.find\<close>: the first element that satisfies \<open>P\<close>, or \<^verbatim>\<open>undefined\<close>.\<close>

fun find_first :: "('a \<Rightarrow> bool) \<Rightarrow> 'a list \<Rightarrow> 'a option" where
  "find_first P [] = None"
| "find_first P (x # xs) = (if P x then Some x else find_first P xs)"

text \<open>\<^verbatim>\<open>xs.slice(-5)\<close>: the last five elements, or all of them when there are fewer.\<close>

definition slice_last5 :: "'a list \<Rightarrow> 'a list" where
  "slice_last5 xs = drop (length xs - 5) xs"

text \<open>
  \<^verbatim>\<open>name.replace(/\.[^/.]+$/, "").replace(/_/g, " ")\<close>: drop a final extension (a dot
  followed by at least one character, none of them a dot or a slash, up to the end),
  then turn underscores into spaces.
\<close>

definition strip_extension :: "string \<Rightarrow> string" where
  "strip_extension s =
     (let r = rev s;
          ext = takeWhile (\<lambda>c. c \<noteq> CHR ''.'' \<and> c \<noteq> CHR ''/'') r;
          rest = dropWhile (\<lambda>c. c \<noteq> CHR ''.'' \<and> c \<noteq> CHR ''/'') r
      in case rest of
           [] \<Rightarrow> s
         | d # stem \<Rightarrow> if d = CHR ''.'' \<and> ext \<noteq> [] then rev stem else s)"

definition auto_title :: "string \<Rightarrow> string" where
  "auto_title name = map (\<lambda>c. if c = CHR ''_'' then CHR '' '' else c) (strip_extension name)"

section \<open>Core actions\<close>

text \<open>
  \<^verbatim>\<open>secureApiRequest\<close>: the request \<open>req\<close> goes out unless the token could not be
  obtained; \<open>None\<close> stands for the exception the caller catches.
\<close>

definition secureApiRequest :: "event \<Rightarrow> 'a api_result \<Rightarrow> event list \<times> 'a option" where
  "secureApiRequest req r =
     (case r of
        TokenError \<Rightarrow> ([], None)
      | RequestError \<Rightarrow> ([req], None)
      | Response d \<Rightarrow> ([req], Some d))"

text \<open>
  \<^verbatim>\<open>saveResume(newHtml, newVersion, newTitle = null)\<close>. The guard
  \<^verbatim>\<open>if (!id || id === 'new') return\<close> comes first; \<^verbatim>\<open>!id\<close> holds for \<^verbatim>\<open>undefined\<close> and
  for the empty string. The title is written only when it is truthy.
\<close>

definition saveResume ::
  "editor \<Rightarrow> string \<Rightarrow> int \<Rightarrow> string option \<Rightarrow> unit db_result \<Rightarrow> editor \<times> event list" where
  "saveResume st newHtml newVersion newTitle r =
     (case docId st of
        None \<Rightarrow> (st, [])
      | Some i \<Rightarrow>
          if i = [] \<or> i = ''new'' then (st, [])
          else
            (let st1 = st\<lparr>isSaving := True\<rparr>;
                 title = (case newTitle of None \<Rightarrow> None
                          | Some t \<Rightarrow> if t = [] then None else Some t);
                 upd = UpdateResume i newHtml newVersion title
             in case r of
                  AuthThrows \<Rightarrow>
                    (st1\<lparr>isSaving := False\<rparr>, [ConsoleError ''Failed to save resume:''])
                | DbError \<Rightarrow>
                    (st1\<lparr>isSaving := False\<rparr>, [upd, ConsoleError ''Failed to save resume:''])
                | DbData u \<Rightarrow>
                    (st1\<lparr>isSaving := False\<rparr>, [upd])))"

text \<open>
  \<^verbatim>\<open>updatePdfPreview(codeToRender)\<close>. The old object URL is revoked inside the
  \<^verbatim>\<open>try\<close>, before the request is made. The response carries the PDF blob; it is
  represented by the URL that \<^verbatim>\<open>URL.createObjectURL\<close> returns for it.
\<close>

definition updatePdfPreview ::
  "editor \<Rightarrow> string \<Rightarrow> url api_result \<Rightarrow> editor \<times> event list" where
  "updatePdfPreview st codeToRender r =
     (let st1 = st\<lparr>isGeneratingPreview := True\<rparr>;
          revoke = (case pdfUrl st of None \<Rightarrow> []
                    | Some u \<Rightarrow> if u = [] then [] else [RevokeObjectURL u]);
          sent = secureApiRequest (PostPreviewPdf codeToRender) r
      in case snd sent of
           None \<Rightarrow>
             (st1\<lparr>isGeneratingPreview := False\<rparr>,
              revoke @ fst sent @ [ConsoleError ''Preview generation failed''])
         | Some blobUrl \<Rightarrow>
             (st1\<lparr>pdfUrl := Some blobUrl, isGeneratingPreview := False\<rparr>,
              revoke @ fst sent @ [CreateObjectURL blobUrl]))"

text \<open>
  \<^verbatim>\<open>handleUndo\<close>. The two calls at its end are not awaited; they are returned as the
  calls the handler has started.
\<close>

definition handleUndo :: "editor \<Rightarrow> editor \<times> call list" where
  "handleUndo st =
     (let currentIndex =
            findIndex (\<lambda>item. entry_id item = currentCodeVersionId st) (codeHistory st)
      in if currentIndex > 0 then
           (let prevVersion = codeHistory st ! nat (currentIndex - 1)
            in (st\<lparr>htmlCode := entry_code prevVersion,
                    currentCodeVersionId := entry_id prevVersion\<rparr>,
                [UpdatePdfPreview (entry_code prevVersion),
                 SaveResume (entry_code prevVersion) (entry_id prevVersion) None]))
         else (st, []))"

text \<open>
  \<^verbatim>\<open>codeHistory.find(v => v.id === currentCodeVersionId)?.code || htmlCode\<close>: the code of
  the first entry with the current id, or \<^verbatim>\<open>htmlCode\<close> when there is none or its code
  is the empty string.
\<close>

definition currentCodeOf :: "editor \<Rightarrow> string" where
  "currentCodeOf st =
     (case find_first (\<lambda>v. entry_id v = currentCodeVersionId st) (codeHistory st) of
        None \<Rightarrow> htmlCode st
      | Some v \<Rightarrow> if entry_code v = [] then htmlCode st else entry_code v)"

text \<open>The body of the request that \<^verbatim>\<open>handleSendMessage\<close> sends.\<close>

definition modifyRequestOf :: "editor \<Rightarrow> modify_request" where
  "modifyRequestOf st =
     (let currentPrompt = userPrompt st;
          newUserMessage = \<lparr> role = ''user'', content = currentPrompt, codeVersionId = None \<rparr>;
          updatedMessages = chatMessages st @ [newUserMessage];
          conversationHistory = map (\<lambda>msg. (role msg, content msg)) updatedMessages
      in \<lparr> req_html_code = currentCodeOf st,
           req_prompt = currentPrompt,
           req_history = slice_last5 conversationHistory,
           req_extracted_data = extractedContext st \<rparr>)"

text \<open>
  \<^verbatim>\<open>handleSendMessage\<close>. \<open>r\<close> is how the call to the edit service ends. The handler
  returns the new state, what it did to the outside world, and the calls it started
  without awaiting them (\<^verbatim>\<open>saveResume\<close> first, then \<^verbatim>\<open>updatePdfPreview\<close>).
\<close>

definition handleSendMessage ::
  "editor \<Rightarrow> modify_response api_result \<Rightarrow> editor \<times> event list \<times> call list" where
  "handleSendMessage st r =
     (if js_trim (userPrompt st) = [] then (st, [], [])
      else
        (let currentPrompt = userPrompt st;
             newUserMessage =
               \<lparr> role = ''user'', content = currentPrompt, codeVersionId = None \<rparr>;
             updatedMessages = chatMessages st @ [newUserMessage];
             st1 = st\<lparr>userPrompt := [], isModifying := True,
                      chatMessages := updatedMessages\<rparr>;
             currentCode = currentCodeOf st;
             sent = secureApiRequest (PostModifyResume (modifyRequestOf st)) r
         in case snd sent of
              None \<Rightarrow>
                (st1\<lparr>chatMessages := chatMessages st1 @
                        [\<lparr> role = ''ai'', content = ''Error contacting AI server.'',
                           codeVersionId = None \<rparr>],
                      isModifying := False\<rparr>,
                 fst sent @ [ConsoleError ''Modify error:''], [])
            | Some d \<Rightarrow>
                if resp_success d then
                  (let newCode = resp_html_code d;
                       agentReply = resp_reply_text d;
                       isCodeChanged = (newCode \<noteq> currentCode);
                       newVersionId = (if isCodeChanged then currentCodeVersionId st + 1
                                       else currentCodeVersionId st);
                       reply = \<lparr> role = ''ai'', content = agentReply,
                                 codeVersionId = Some newVersionId \<rparr>
                   in if isCodeChanged then
                        (st1\<lparr>codeHistory := codeHistory st1 @
                                [\<lparr> entry_id = newVersionId, entry_code = newCode \<rparr>],
                              currentCodeVersionId := newVersionId,
                              htmlCode := newCode,
                              chatMessages := chatMessages st1 @ [reply],
                              isModifying := False\<rparr>,
                         fst sent,
                         [SaveResume newCode newVersionId None, UpdatePdfPreview newCode])
                      else
                        (st1\<lparr>chatMessages := chatMessages st1 @ [reply],
                              isModifying := False\<rparr>,
                         fst sent, []))
                else
                  (st1\<lparr>chatMessages := chatMessages st1 @
                          [\<lparr> role = ''ai'',
                             content = ''Sorry, I couldn't process that request.'',
                             codeVersionId = None \<rparr>],
                        isModifying := False\<rparr>,
                   fst sent, [])))"

text \<open>
  \<^verbatim>\<open>fetchResumeData(resumeId)\<close>. \<open>r\<close> is how the \<^verbatim>\<open>select('*').eq('id', resumeId).single()\<close>
  query ends; its data may be \<^verbatim>\<open>null\<close>. The preview call is not awaited.
\<close>

definition fetchResumeData ::
  "editor \<Rightarrow> string \<Rightarrow> resume_row option db_result \<Rightarrow> editor \<times> event list \<times> call list" where
  "fetchResumeData st resumeId r =
     (case r of
        AuthThrows \<Rightarrow>
          (st\<lparr>isFetchingInitialData := False\<rparr>, [ConsoleError ''Error loading resume:''], [])
      | DbError \<Rightarrow>
          (st\<lparr>isFetchingInitialData := False\<rparr>,
           [SelectResume resumeId, ConsoleError ''Error loading resume:''], [])
      | DbData None \<Rightarrow>
          (st\<lparr>isFetchingInitialData := False\<rparr>, [SelectResume resumeId], [])
      | DbData (Some data) \<Rightarrow>
          (let st1 = st\<lparr>resumeTitle := js_or (row_title data) ''Untitled Resume''\<rparr>
           in case row_html_content data of
                None \<Rightarrow> (st1\<lparr>isFetchingInitialData := False\<rparr>, [SelectResume resumeId], [])
              | Some h \<Rightarrow>
                  if h \<noteq> [] \<and> length h > 50 then
                    (st1\<lparr>htmlCode := h,
                          codeHistory := [\<lparr> entry_id = row_version data, entry_code = h \<rparr>],
                          currentCodeVersionId := row_version data,
                          step := 2,
                          isFetchingInitialData := False\<rparr>,
                     [SelectResume resumeId], [UpdatePdfPreview h])
                  else (st1\<lparr>isFetchingInitialData := False\<rparr>, [SelectResume resumeId], [])))"

text \<open>
  \<^verbatim>\<open>handleExtractAndGenerate\<close>. \<open>r\<close> is how \<^verbatim>\<open>POST /process_html\<close> ends; \<open>sr\<close> and
  \<open>pr\<close> are how the awaited \<^verbatim>\<open>saveResume\<close> and \<^verbatim>\<open>updatePdfPreview\<close> end.
\<close>

definition handleExtractAndGenerate ::
  "editor \<Rightarrow> process_response api_result \<Rightarrow> unit db_result \<Rightarrow> url api_result \<Rightarrow>
   editor \<times> event list" where
  "handleExtractAndGenerate st r sr pr =
     (case (resumeFile st, selectedTemplate st) of
        (Some file, Some template) \<Rightarrow>
          (let st1 = st\<lparr>isProcessing := True, isGenerationDone := False\<rparr>;
               sent = secureApiRequest (PostProcessHtml file template) r
           in case snd sent of
                None \<Rightarrow>
                  (st1\<lparr>isProcessing := False\<rparr>,
                   fst sent @ [ConsoleError ''Extract error:'',
                               Alert ''Server error during generation.''])
              | Some d \<Rightarrow>
                  if proc_success d then
                    (let initialCode = proc_html_code d;
                         initialVersion = 1;
                         rawData = js_or (proc_extracted_data d) [];
                         autoTitle = auto_title file;
                         st2 = st1\<lparr>codeHistory :=
                                      [\<lparr> entry_id = initialVersion, entry_code = initialCode \<rparr>],
                                    currentCodeVersionId := initialVersion,
                                    htmlCode := initialCode,
                                    extractedContext := rawData,
                                    resumeTitle := autoTitle,
                                    step := 2\<rparr>;
                         saved = saveResume st2 initialCode initialVersion (Some autoTitle) sr;
                         shown = updatePdfPreview (fst saved) initialCode pr
                     in ((fst shown)\<lparr>chatMessages :=
                            [\<lparr> role = ''ai'',
                               content = ''I've generated your PDF resume! Review the preview on the right. What would you like to change?'',
                               codeVersionId = Some 1 \<rparr>],
                          isGenerationDone := True\<rparr>,
                         fst sent @ snd saved @ snd shown))
                  else
                    (st1\<lparr>isProcessing := False\<rparr>,
                     fst sent @
                     [Alert (''Extraction failed: '' @
                             js_or (proc_error d) ''Unknown error'')]))
      | _ \<Rightarrow> (st, [Alert ''Please select a template and upload a resume.'']))"

section \<open>What the rendered page offers\<close>

text \<open>The \<^verbatim>\<open>disabled\<close> attribute of the send button.\<close>

definition sendDisabled :: "editor \<Rightarrow> bool" where
  "sendDisabled st = (isModifying st \<or> js_trim (userPrompt st) = [])"

text \<open>The \<^verbatim>\<open>disabled\<close> attribute of the undo button.\<close>

definition undoDisabled :: "editor \<Rightarrow> bool" where
  "undoDisabled st =
     (findIndex (\<lambda>v. entry_id v = currentCodeVersionId st) (codeHistory st) \<le> 0
      \<or> isSaving st \<or> isModifying st)"

text \<open>
  The preview pane: a spinner while \<^verbatim>\<open>isGeneratingPreview || !pdfUrl\<close>, otherwise an
  iframe whose source is \<^verbatim>\<open>pdfUrl\<close>.
\<close>

datatype pane = Spinner | Frame url

definition previewPane :: "editor \<Rightarrow> pane" where
  "previewPane st =
     (if isGeneratingPreview st then Spinner
      else case pdfUrl st of
             None \<Rightarrow> Spinner
           | Some u \<Rightarrow> if u = [] then Spinner else Frame u)"

section \<open>Running a session\<close>

text \<open>
  A handler works on the state of the render in which it was invoked. The page disables
  the send and undo buttons while a turn is in flight, so handlers do not overlap.

  The calls a handler starts without awaiting them do overlap. Each runs at once up to
  its first \<^verbatim>\<open>await\<close>, in the order the handler starts them, and is then suspended:
  \<^verbatim>\<open>updatePdfPreview\<close> has set the preview flag and revoked the old object URL and waits
  in \<^verbatim>\<open>secureApiRequest\<close> for the token; \<^verbatim>\<open>saveResume\<close> has passed its guard and set
  the saving flag and waits for \<^verbatim>\<open>getAuthenticatedSupabase\<close>. When the awaited value
  arrives the call sends its request and is suspended again until the answer arrives.
\<close>

datatype pending =
    PreviewAwaitsToken string
  | PreviewAwaitsResponse
  | SaveAwaitsClient string string int "string option"
  | SaveAwaitsResult

text \<open>
  The synchronous head of a call: the new state, what was done, and where the call is
  suspended (\<open>None\<close> when it has returned). A suspended save keeps the route
  parameter and its arguments.
\<close>

fun start_call :: "editor \<Rightarrow> call \<Rightarrow> editor \<times> event list \<times> pending option" where
  "start_call st (UpdatePdfPreview c) =
     (st\<lparr>isGeneratingPreview := True\<rparr>,
      (case pdfUrl st of None \<Rightarrow> []
       | Some u \<Rightarrow> if u = [] then [] else [RevokeObjectURL u]),
      Some (PreviewAwaitsToken c))"
| "start_call st (SaveResume h v t) =
     (case docId st of
        None \<Rightarrow> (st, [], None)
      | Some i \<Rightarrow>
          if i = [] \<or> i = ''new'' then (st, [], None)
          else (st\<lparr>isSaving := True\<rparr>, [], Some (SaveAwaitsClient i h v t)))"

text \<open>
  A suspended call goes on to its next \<^verbatim>\<open>await\<close> or to its end. \<open>sr\<close> and \<open>pr\<close> say how
  the save and the preview request end.
\<close>

fun resume_call ::
  "unit db_result \<Rightarrow> url api_result \<Rightarrow> editor \<Rightarrow> pending \<Rightarrow>
   editor \<times> event list \<times> pending option" where
  "resume_call sr pr st (PreviewAwaitsToken c) =
     (case pr of
        TokenError \<Rightarrow>
          (st\<lparr>isGeneratingPreview := False\<rparr>,
           [ConsoleError ''Preview generation failed''], None)
      | _ \<Rightarrow> (st, [PostPreviewPdf c], Some PreviewAwaitsResponse))"
| "resume_call sr pr st PreviewAwaitsResponse =
     (case pr of
        Response blobUrl \<Rightarrow>
          (st\<lparr>pdfUrl := Some blobUrl, isGeneratingPreview := False\<rparr>,
           [CreateObjectURL blobUrl], None)
      | _ \<Rightarrow>
          (st\<lparr>isGeneratingPreview := False\<rparr>,
           [ConsoleError ''Preview generation failed''], None))"
| "resume_call sr pr st (SaveAwaitsClient i h v t) =
     (case sr of
        AuthThrows \<Rightarrow>
          (st\<lparr>isSaving := False\<rparr>, [ConsoleError ''Failed to save resume:''], None)
      | _ \<Rightarrow>
          (st,
           [UpdateResume i h v
              (case t of None \<Rightarrow> None | Some x \<Rightarrow> if x = [] then None else Some x)],
           Some SaveAwaitsResult))"
| "resume_call sr pr st SaveAwaitsResult =
     (case sr of
        DbError \<Rightarrow>
          (st\<lparr>isSaving := False\<rparr>, [ConsoleError ''Failed to save resume:''], None)
      | _ \<Rightarrow> (st\<lparr>isSaving := False\<rparr>, [], None))"

text \<open>A suspended call run to its end with nothing in between.\<close>

definition finish_call ::
  "unit db_result \<Rightarrow> url api_result \<Rightarrow> editor \<Rightarrow> pending \<Rightarrow> editor \<times> event list" where
  "finish_call sr pr st p =
     (let a = resume_call sr pr st p
      in case snd (snd a) of
           None \<Rightarrow> (fst a, fst (snd a))
         | Some q \<Rightarrow>
             (let b = resume_call sr pr (fst a) q
              in (fst b, fst (snd a) @ fst (snd b))))"

text \<open>A call started and run to its end on its own, as when it is awaited.\<close>

definition run_alone ::
  "unit db_result \<Rightarrow> url api_result \<Rightarrow> editor \<Rightarrow> call \<Rightarrow> editor \<times> event list" where
  "run_alone sr pr st c =
     (let a = start_call st c
      in case snd (snd a) of
           None \<Rightarrow> (fst a, fst (snd a))
         | Some p \<Rightarrow>
             (let b = finish_call sr pr (fst a) p
              in (fst b, fst (snd a) @ snd b)))"

text \<open>The heads of the calls a handler starts, in the order it starts them.\<close>

fun start_calls :: "editor \<Rightarrow> call list \<Rightarrow> editor \<times> event list \<times> pending list" where
  "start_calls st [] = (st, [], [])"
| "start_calls st (c # cs) =
     (let a = start_call st c; b = start_calls (fst a) cs
      in (fst b, fst (snd a) @ fst (snd b),
          (case snd (snd a) of None \<Rightarrow> [] | Some p \<Rightarrow> [p]) @ snd (snd b)))"

text \<open>
  The order in which the suspended calls go on is not fixed by the code: it is the
  order in which tokens and answers arrive. A schedule names, step by step, the
  position of the suspended call that goes on next (a position that does not exist is
  skipped).

  When the schedule ends, the calls still suspended go on as they do when no token and
  no answer is delayed. \<^verbatim>\<open>secureApiRequest\<close> awaits one promise before it calls axios,
  \<^verbatim>\<open>saveResume\<close> awaits two before it calls \<^verbatim>\<open>update\<close> (\<^verbatim>\<open>getAuthenticatedSupabase\<close>
  and, inside it, the token), so the preview request goes out first, then the update;
  the answers follow in the same order.
\<close>

fun awaitsToken :: "pending \<Rightarrow> bool" where
  "awaitsToken (PreviewAwaitsToken c) = True"
| "awaitsToken p = False"

fun awaitsClient :: "pending \<Rightarrow> bool" where
  "awaitsClient (SaveAwaitsClient i h v t) = True"
| "awaitsClient p = False"

fun awaitsResponse :: "pending \<Rightarrow> bool" where
  "awaitsResponse PreviewAwaitsResponse = True"
| "awaitsResponse p = False"

fun awaitsResult :: "pending \<Rightarrow> bool" where
  "awaitsResult SaveAwaitsResult = True"
| "awaitsResult p = False"

text \<open>One step of every suspended call that waits at the places \<open>P\<close>, in order.\<close>

fun resume_where ::
  "(pending \<Rightarrow> bool) \<Rightarrow> unit db_result \<Rightarrow> url api_result \<Rightarrow> editor \<Rightarrow> pending list \<Rightarrow>
   editor \<times> event list \<times> pending list" where
  "resume_where P sr pr st [] = (st, [], [])"
| "resume_where P sr pr st (p # ps) =
     (if P p then
        (let a = resume_call sr pr st p; b = resume_where P sr pr (fst a) ps
         in (fst b, fst (snd a) @ fst (snd b),
             (case snd (snd a) of None \<Rightarrow> [] | Some q \<Rightarrow> [q]) @ snd (snd b)))
      else
        (let b = resume_where P sr pr st ps
         in (fst b, fst (snd b), p # snd (snd b))))"

definition settle ::
  "unit db_result \<Rightarrow> url api_result \<Rightarrow> editor \<Rightarrow> pending list \<Rightarrow> editor \<times> event list" where
  "settle sr pr st ps =
     (let a = resume_where awaitsToken sr pr st ps;
          b = resume_where awaitsClient sr pr (fst a) (snd (snd a));
          c = resume_where awaitsResponse sr pr (fst b) (snd (snd b));
          d = resume_where awaitsResult sr pr (fst c) (snd (snd c))
      in (fst d, fst (snd a) @ fst (snd b) @ fst (snd c) @ fst (snd d)))"

fun run_pending ::
  "unit db_result \<Rightarrow> url api_result \<Rightarrow> nat list \<Rightarrow> editor \<Rightarrow> pending list \<Rightarrow>
   editor \<times> event list" where
  "run_pending sr pr [] st ps = settle sr pr st ps"
| "run_pending sr pr (k # ks) st ps =
     (if k < length ps then
        (let a = resume_call sr pr st (ps ! k);
             ps' = (case snd (snd a) of
                      None \<Rightarrow> take k ps @ drop (Suc k) ps
                    | Some q \<Rightarrow> ps[k := q]);
             b = run_pending sr pr ks (fst a) ps'
         in (fst b, fst (snd a) @ snd b))
      else run_pending sr pr ks st ps)"

definition run_calls ::
  "unit db_result \<Rightarrow> url api_result \<Rightarrow> nat list \<Rightarrow> editor \<Rightarrow> call list \<Rightarrow>
   editor \<times> event list" where
  "run_calls sr pr sched st cs =
     (let a = start_calls st cs;
          b = run_pending sr pr sched (fst a) (snd (snd a))
      in (fst b, fst (snd a) @ snd b))"

text \<open>
  What the user does in the editing step: type a prompt and send it, or press undo.
  Each carries how the external calls it causes end, and the schedule of the calls the
  handler starts.
\<close>

datatype action =
    Send string "modify_response api_result" "unit db_result" "url api_result" "nat list"
  | Undo "unit db_result" "url api_result" "nat list"

fun do_action :: "editor \<Rightarrow> action \<Rightarrow> editor \<times> event list" where
  "do_action st (Send p r sr pr sched) =
     (let h = handleSendMessage (st\<lparr>userPrompt := p\<rparr>) r;
          c = run_calls sr pr sched (fst h) (snd (snd h))
      in (fst c, fst (snd h) @ snd c))"
| "do_action st (Undo sr pr sched) =
     (let h = handleUndo st; c = run_calls sr pr sched (fst h) (snd h)
      in (fst c, snd c))"

fun run_session :: "editor \<Rightarrow> action list \<Rightarrow> editor \<times> event list" where
  "run_session st [] = (st, [])"
| "run_session st (a # as) =
     (let x = do_action st a; y = run_session (fst x) as
      in (fst y, snd x @ snd y))"

section \<open>Observations on traces, and a running example\<close>

definition isUpdateResume :: "event \<Rightarrow> bool" where
  "isUpdateResume e = (case e of UpdateResume i h v t \<Rightarrow> True | _ \<Rightarrow> False)"

definition isPostModifyResume :: "event \<Rightarrow> bool" where
  "isPostModifyResume e = (case e of PostModifyResume q \<Rightarrow> True | _ \<Rightarrow> False)"

definition isSaveCall :: "call \<Rightarrow> bool" where
  "isSaveCall c = (case c of SaveResume h v t \<Rightarrow> True | _ \<Rightarrow> False)"

text \<open>The condition of the guard at the head of \<^verbatim>\<open>saveResume\<close>.\<close>

definition noDocumentId :: "editor \<Rightarrow> bool" where
  "noDocumentId st = (docId st = None \<or> docId st = Some [] \<or> docId st = Some ''new'')"

text \<open>The message object that \<^verbatim>\<open>handleSendMessage\<close> builds for the prompt.\<close>

definition userMessageOf :: "editor \<Rightarrow> chat_message" where
  "userMessageOf st = \<lparr> role = ''user'', content = userPrompt st, codeVersionId = None \<rparr>"

text \<open>The text of the message that reports a failed turn.\<close>

definition failureText :: "modify_response api_result \<Rightarrow> string" where
  "failureText r = (case r of Response d \<Rightarrow> ''Sorry, I couldn't process that request.''
                    | _ \<Rightarrow> ''Error contacting AI server.'')"

text \<open>
  The example: document \<open>r-17\<close>, a file and a template chosen, generation answered
  with a first snapshot.
\<close>

definition ex_upload :: editor where
  "ex_upload = (initial_editor (Some ''r-17''))\<lparr>isFetchingInitialData := False,
      selectedTemplate := Some ''modern-minimal'', resumeFile := Some ''jane_doe.v2.pdf''\<rparr>"

definition ex_generated :: process_response where
  "ex_generated = \<lparr> proc_success = True, proc_html_code = ''<h1>H1</h1>'',
       proc_extracted_data = Some ''Jane Doe'', proc_error = None \<rparr>"

definition ex_editor :: editor where
  "ex_editor =
     \<lparr> docId = Some ''r-17'', step = 2, isFetchingInitialData = False,
       selectedTemplate = Some ''modern-minimal'', resumeFile = Some ''jane_doe.v2.pdf'',
       htmlCode = ''<h1>H1</h1>'', extractedContext = ''Jane Doe'', pdfUrl = Some ''blob:1'',
       resumeTitle = ''jane doe.v2'',
       chatMessages = [\<lparr> role = ''ai'',
          content = ''I've generated your PDF resume! Review the preview on the right. What would you like to change?'',
          codeVersionId = Some 1 \<rparr>],
       userPrompt = [],
       codeHistory = [\<lparr> entry_id = 1, entry_code = ''<h1>H1</h1>'' \<rparr>],
       currentCodeVersionId = 1, isProcessing = True,
       isGenerationDone = True, isGeneratingPreview = False, isModifying = False,
       isSaving = False \<rparr>"

definition ex_typing :: editor where
  "ex_typing = ex_editor\<lparr>userPrompt := ''make the font larger''\<rparr>"

definition ex_rejected :: modify_response where
  "ex_rejected = \<lparr> resp_success = False, resp_html_code = [], resp_reply_text = [] \<rparr>"

definition ex_changed :: modify_response where
  "ex_changed =
     \<lparr> resp_success = True, resp_html_code = ''<h1>H2</h1>'', resp_reply_text = ''Done.'' \<rparr>"

definition ex_unchanged :: modify_response where
  "ex_unchanged =
     \<lparr> resp_success = True, resp_html_code = ''<h1>H1</h1>'', resp_reply_text = ''Which font?'' \<rparr>"

definition ex_unsaved :: editor where
  "ex_unsaved = ex_editor\<lparr>docId := Some ''new''\<rparr>"

definition ex_long :: editor where
  "ex_long = ex_typing\<lparr>chatMessages :=
      [\<lparr> role = ''ai'', content = ''m1'', codeVersionId = Some 1 \<rparr>,
       \<lparr> role = ''user'', content = ''m2'', codeVersionId = None \<rparr>,
       \<lparr> role = ''ai'', content = ''m3'', codeVersionId = Some 1 \<rparr>,
       \<lparr> role = ''user'', content = ''m4'', codeVersionId = None \<rparr>,
       \<lparr> role = ''ai'', content = ''m5'', codeVersionId = None \<rparr>,
       \<lparr> role = ''user'', content = ''m6'', codeVersionId = None \<rparr>,
       \<lparr> role = ''ai'', content = ''m7'', codeVersionId = Some 1 \<rparr>]\<rparr>"

text \<open>An accepted edit, an undo, and a second accepted edit.\<close>

definition ex_edit :: action where
  "ex_edit =
     Send ''make the font larger'' (Response ex_changed) (DbData ()) (Response ''blob:2'')
       []"

definition ex_edited :: editor where
  "ex_edited = fst (do_action ex_editor ex_edit)"

definition ex_undone :: editor where
  "ex_undone = fst (do_action ex_edited (Undo (DbData ()) (Response ''blob:3'') []))"

definition ex_second :: modify_response where
  "ex_second =
     \<lparr> resp_success = True, resp_html_code = ''<h1>H3</h1>'', resp_reply_text = ''Bold now.'' \<rparr>"

definition ex_reedited :: editor where
  "ex_reedited =
     fst (do_action ex_undone
            (Send ''make it bold'' (Response ex_second) (DbData ()) (Response ''blob:4'')
               []))"

text \<open>A reply that returns the HTML now displayed.\<close>

definition ex_same :: modify_response where
  "ex_same =
     \<lparr> resp_success = True, resp_html_code = ''<h1>H3</h1>'',
       resp_reply_text = ''Glad you like it.'' \<rparr>"

definition ex_edit_undo_edit :: "action list" where
  "ex_edit_undo_edit =
     [ex_edit,
      Undo (DbData ()) (Response ''blob:3'') [],
      Send ''make it bold'' (Response ex_second) (DbData ()) (Response ''blob:4'') []]"

text \<open>Two stored rows, with 51 and with 50 characters of HTML.\<close>

definition ex_row_long :: resume_row where
  "ex_row_long = \<lparr> row_title = Some ''CV'', row_html_content = Some (replicate 51 (CHR ''x'')),
                    row_version = 4 \<rparr>"

definition ex_row_short :: resume_row where
  "ex_row_short = \<lparr> row_title = Some ''CV'', row_html_content = Some (replicate 50 (CHR ''x'')),
                     row_version = 4 \<rparr>"

subsection \<open>Notions used to state the properties\<close>

definition isRevokeObjectURL :: "event \<Rightarrow> bool" where
  "isRevokeObjectURL e = (case e of RevokeObjectURL u \<Rightarrow> True | _ \<Rightarrow> False)"

text \<open>The call to the edit service returned a response with \<^verbatim>\<open>success\<close> true.\<close>

definition succeeded :: "modify_response api_result \<Rightarrow> bool" where
  "succeeded r = (case r of Response d \<Rightarrow> resp_success d | _ \<Rightarrow> False)"

fun isSend :: "action \<Rightarrow> bool" where
  "isSend (Send p r sr pr sched) = True"
| "isSend (Undo sr pr sched) = False"

text \<open>
  An accepted edit: a prompt that is not blank, answered with \<^verbatim>\<open>success\<close> true and an
  HTML that differs from the HTML that was sent.
\<close>

definition acceptedEdit :: "editor \<Rightarrow> action \<Rightarrow> bool" where
  "acceptedEdit st a =
     (case a of
        Send p (Response d) sr pr sched \<Rightarrow>
          js_trim p \<noteq> [] \<and> resp_success d
          \<and> resp_html_code d \<noteq> currentCodeOf (st\<lparr>userPrompt := p\<rparr>)
      | _ \<Rightarrow> False)"

fun acceptedEdits :: "editor \<Rightarrow> action list \<Rightarrow> nat" where
  "acceptedEdits st [] = 0"
| "acceptedEdits st (a # as) =
     (if acceptedEdit st a then 1 else 0) + acceptedEdits (fst (do_action st a)) as"

text \<open>The history ids are 1, 2, ..., n and the current id is n.\<close>

definition idsFromOne :: "editor \<Rightarrow> bool" where
  "idsFromOne st =
     (map entry_id (codeHistory st) = map int [1..<Suc (length (codeHistory st))]
      \<and> currentCodeVersionId st = int (length (codeHistory st)))"


text \<open>
  Two states agree on the route parameter, the history, the current id and the current
  HTML.
\<close>

definition sameDocument :: "editor \<Rightarrow> editor \<Rightarrow> bool" where
  "sameDocument st st' =
     (docId st' = docId st \<and> codeHistory st' = codeHistory st
      \<and> currentCodeVersionId st' = currentCodeVersionId st \<and> htmlCode st' = htmlCode st)"

section \<open>Suspended calls\<close>

text \<open>
  Run on its own, a call in steps does what the function does as a whole. The calls
  touch neither the route parameter, nor the history, nor the current id, nor the
  current HTML.
\<close>

lemma run_alone_preview: "run_alone sr pr st (UpdatePdfPreview c) = updatePdfPreview st c pr"
  by (cases pr)
     (simp_all add: run_alone_def finish_call_def updatePdfPreview_def secureApiRequest_def
        Let_def)

lemma run_alone_save: "run_alone sr pr st (SaveResume h v t) = saveResume st h v t sr"
  by (cases sr)
     (auto simp: run_alone_def finish_call_def saveResume_def Let_def split: option.splits)

lemma start_call_same: "sameDocument st (fst (start_call st c))"
  by (cases c) (auto simp: sameDocument_def split: option.splits)

lemma resume_call_same: "sameDocument st (fst (resume_call sr pr st p))"
  by (cases p; cases pr; cases sr) (simp_all add: sameDocument_def)

lemma sameDocument_trans: "sameDocument a b \<Longrightarrow> sameDocument b c \<Longrightarrow> sameDocument a c"
  by (simp add: sameDocument_def)

lemma start_calls_same: "sameDocument st (fst (start_calls st cs))"
proof (induction cs arbitrary: st)
  case Nil
  show ?case by (simp add: sameDocument_def)
next
  case (Cons c cs)
  from sameDocument_trans[OF start_call_same[of st c] Cons.IH[of "fst (start_call st c)"]]
  show ?case by (simp add: Let_def)
qed

lemma resume_where_same: "sameDocument st (fst (resume_where P sr pr st ps))"
proof (induction ps arbitrary: st)
  case Nil
  show ?case by (simp add: sameDocument_def)
next
  case (Cons p ps)
  show ?case
  proof (cases "P p")
    case True
    from sameDocument_trans[OF resume_call_same[of st sr pr p]
           Cons.IH[of "fst (resume_call sr pr st p)"]] True
    show ?thesis by (simp add: Let_def)
  next
    case False
    with Cons.IH[of st] show ?thesis by (simp add: Let_def)
  qed
qed

lemma settle_same: "sameDocument st (fst (settle sr pr st ps))"
proof -
  let ?a = "resume_where awaitsToken sr pr st ps"
  let ?b = "resume_where awaitsClient sr pr (fst ?a) (snd (snd ?a))"
  let ?c = "resume_where awaitsResponse sr pr (fst ?b) (snd (snd ?b))"
  let ?d = "resume_where awaitsResult sr pr (fst ?c) (snd (snd ?c))"
  have "sameDocument st (fst ?a)" by (rule resume_where_same)
  moreover have "sameDocument (fst ?a) (fst ?b)" by (rule resume_where_same)
  moreover have "sameDocument (fst ?b) (fst ?c)" by (rule resume_where_same)
  moreover have "sameDocument (fst ?c) (fst ?d)" by (rule resume_where_same)
  ultimately have "sameDocument st (fst ?d)" by (simp add: sameDocument_def)
  then show ?thesis by (simp add: settle_def Let_def)
qed

lemma run_pending_same: "sameDocument st (fst (run_pending sr pr sched st ps))"
proof (induction sched arbitrary: st ps)
  case Nil
  show ?case by (simp add: settle_same)
next
  case (Cons k ks)
  show ?case
  proof (cases "k < length ps")
    case True
    let ?a = "resume_call sr pr st (ps ! k)"
    let ?ps = "case snd (snd ?a) of None \<Rightarrow> take k ps @ drop (Suc k) ps
               | Some q \<Rightarrow> ps[k := q]"
    from sameDocument_trans[OF resume_call_same[of st sr pr "ps ! k"]
           Cons.IH[of "fst ?a" ?ps]] True
    show ?thesis by (simp add: Let_def)
  next
    case False
    then show ?thesis using Cons.IH[of st ps] by simp
  qed
qed

lemma run_calls_same: "sameDocument st (fst (run_calls sr pr sched st cs))"
  using sameDocument_trans[OF start_calls_same[of st cs]
          run_pending_same[of "fst (start_calls st cs)" sr pr sched "snd (snd (start_calls st cs))"]]
  by (simp add: run_calls_def Let_def)

text \<open>
  A write to the \<^verbatim>\<open>resumes\<close> table comes from a save that was suspended before its
  update, and carries that save's document id, HTML and version.
\<close>

lemma resume_call_update:
  "UpdateResume i h v t \<in> set (fst (snd (resume_call sr pr st p)))
     \<Longrightarrow> \<exists>t'. p = SaveAwaitsClient i h v t'"
  by (cases p; cases pr; cases sr) simp_all

lemma resume_call_next:
  "snd (snd (resume_call sr pr st p)) = Some q
     \<Longrightarrow> q = PreviewAwaitsResponse \<or> q = SaveAwaitsResult"
  by (cases p; cases pr; cases sr) auto

lemma resume_where_update:
  "UpdateResume i h v t \<in> set (fst (snd (resume_where P sr pr st ps)))
     \<Longrightarrow> \<exists>t'. SaveAwaitsClient i h v t' \<in> set ps"
proof (induction ps arbitrary: st)
  case Nil
  then show ?case by simp
next
  case (Cons p ps)
  then show ?case
    by (auto simp: Let_def split: if_splits dest: resume_call_update)
qed

lemma resume_where_pending:
  "SaveAwaitsClient i h v t \<in> set (snd (snd (resume_where P sr pr st ps)))
     \<Longrightarrow> SaveAwaitsClient i h v t \<in> set ps"
proof (induction ps arbitrary: st)
  case Nil
  then show ?case by simp
next
  case (Cons p ps)
  show ?case
  proof (cases "P p")
    case False
    with Cons show ?thesis by (auto simp: Let_def)
  next
    case True
    have "snd (snd (resume_call sr pr st p)) \<noteq> Some (SaveAwaitsClient i h v t)"
      using resume_call_next[of sr pr st p "SaveAwaitsClient i h v t"] by auto
    with Cons True show ?thesis
      by (auto simp: Let_def split: option.splits)
  qed
qed

lemma settle_update:
  assumes "UpdateResume i h v t \<in> set (snd (settle sr pr st ps))"
  shows "\<exists>t'. SaveAwaitsClient i h v t' \<in> set ps"
proof -
  let ?a = "resume_where awaitsToken sr pr st ps"
  let ?b = "resume_where awaitsClient sr pr (fst ?a) (snd (snd ?a))"
  let ?c = "resume_where awaitsResponse sr pr (fst ?b) (snd (snd ?b))"
  let ?d = "resume_where awaitsResult sr pr (fst ?c) (snd (snd ?c))"
  have pa: "\<And>t'. SaveAwaitsClient i h v t' \<in> set (snd (snd ?a))
              \<Longrightarrow> SaveAwaitsClient i h v t' \<in> set ps"
    by (rule resume_where_pending)
  have pb: "\<And>t'. SaveAwaitsClient i h v t' \<in> set (snd (snd ?b))
              \<Longrightarrow> SaveAwaitsClient i h v t' \<in> set ps"
    using pa resume_where_pending by blast
  have pc: "\<And>t'. SaveAwaitsClient i h v t' \<in> set (snd (snd ?c))
              \<Longrightarrow> SaveAwaitsClient i h v t' \<in> set ps"
    using pb resume_where_pending by blast
  from assms consider
      "UpdateResume i h v t \<in> set (fst (snd ?a))"
    | "UpdateResume i h v t \<in> set (fst (snd ?b))"
    | "UpdateResume i h v t \<in> set (fst (snd ?c))"
    | "UpdateResume i h v t \<in> set (fst (snd ?d))"
    by (auto simp: settle_def Let_def)
  then show ?thesis
  proof cases
    case 1
    from resume_where_update[OF 1] show ?thesis .
  next
    case 2
    from resume_where_update[OF 2] pa show ?thesis by blast
  next
    case 3
    from resume_where_update[OF 3] pb show ?thesis by blast
  next
    case 4
    from resume_where_update[OF 4] pc show ?thesis by blast
  qed
qed

lemma run_pending_update:
  "UpdateResume i h v t \<in> set (snd (run_pending sr pr sched st ps))
     \<Longrightarrow> \<exists>t'. SaveAwaitsClient i h v t' \<in> set ps"
proof (induction sched arbitrary: st ps)
  case Nil
  then show ?case by (simp add: settle_update)
next
  case (Cons k ks)
  show ?case
  proof (cases "k < length ps")
    case False
    with Cons show ?thesis by simp
  next
    case True
    let ?a = "resume_call sr pr st (ps ! k)"
    let ?ps = "case snd (snd ?a) of None \<Rightarrow> take k ps @ drop (Suc k) ps
               | Some q \<Rightarrow> ps[k := q]"
    from Cons.prems True
    consider (now) "UpdateResume i h v t \<in> set (fst (snd ?a))"
      | (later) "UpdateResume i h v t \<in> set (snd (run_pending sr pr ks (fst ?a) ?ps))"
      by (auto simp: Let_def)
    then show ?thesis
    proof cases
      case now
      from resume_call_update[OF now] obtain t' where "ps ! k = SaveAwaitsClient i h v t'" ..
      with True show ?thesis by (metis nth_mem)
    next
      case later
      from Cons.IH[OF later] obtain t' where m: "SaveAwaitsClient i h v t' \<in> set ?ps" ..
      show ?thesis
      proof (cases "snd (snd ?a)")
        case None
        with m have "SaveAwaitsClient i h v t' \<in> set (take k ps) \<union> set (drop (Suc k) ps)"
          by simp
        then show ?thesis
          by (auto dest: in_set_takeD in_set_dropD)
      next
        case (Some q)
        from resume_call_next[OF Some] have "q \<noteq> SaveAwaitsClient i h v t'" by auto
        moreover from m Some have "SaveAwaitsClient i h v t' \<in> set (ps[k := q])" by simp
        ultimately show ?thesis
          using set_update_subset_insert[of ps k q] by auto
      qed
    qed
  qed
qed

lemma start_call_pending:
  "snd (snd (start_call st c)) = Some (SaveAwaitsClient i h v t)
     \<Longrightarrow> c = SaveResume h v t \<and> docId st = Some i \<and> i \<noteq> [] \<and> i \<noteq> ''new''"
  by (cases c) (auto split: option.splits if_splits)

lemma start_call_quiet: "UpdateResume i h v t \<notin> set (fst (snd (start_call st c)))"
  by (cases c) (auto split: option.splits)

lemma start_calls_pending:
  "SaveAwaitsClient i h v t \<in> set (snd (snd (start_calls st cs)))
     \<Longrightarrow> SaveResume h v t \<in> set cs \<and> docId st = Some i \<and> i \<noteq> [] \<and> i \<noteq> ''new''"
proof (induction cs arbitrary: st)
  case Nil
  then show ?case by simp
next
  case (Cons c cs)
  have d: "docId (fst (start_call st c)) = docId st"
    using start_call_same[of st c] by (simp add: sameDocument_def)
  from Cons.prems
  consider "snd (snd (start_call st c)) = Some (SaveAwaitsClient i h v t)"
    | "SaveAwaitsClient i h v t \<in> set (snd (snd (start_calls (fst (start_call st c)) cs)))"
    by (auto simp: Let_def split: option.splits)
  then show ?case
  proof cases
    case 1
    from start_call_pending[OF 1] show ?thesis by simp
  next
    case 2
    from Cons.IH[OF 2] d show ?thesis by simp
  qed
qed

lemma start_calls_quiet: "UpdateResume i h v t \<notin> set (fst (snd (start_calls st cs)))"
  by (induction cs arbitrary: st) (auto simp: Let_def start_call_quiet)

lemma run_calls_update:
  assumes "UpdateResume i h v t \<in> set (snd (run_calls sr pr sched st cs))"
  shows "(\<exists>t'. SaveResume h v t' \<in> set cs) \<and> docId st = Some i \<and> i \<noteq> [] \<and> i \<noteq> ''new''"
proof -
  from assms start_calls_quiet[of i h v t st cs]
  have "UpdateResume i h v t
          \<in> set (snd (run_pending sr pr sched (fst (start_calls st cs)) (snd (snd (start_calls st cs)))))"
    by (simp add: run_calls_def Let_def)
  from run_pending_update[OF this] obtain t' where
    "SaveAwaitsClient i h v t' \<in> set (snd (snd (start_calls st cs)))" ..
  from start_calls_pending[OF this] show ?thesis by blast
qed

section \<open>The example is a run of the code\<close>

lemma ingestion_example:
  "handleExtractAndGenerate ex_upload (Response ex_generated) (DbData ()) (Response ''blob:1'')
   = (ex_editor, [PostProcessHtml ''jane_doe.v2.pdf'' ''modern-minimal'',
                  UpdateResume ''r-17'' ''<h1>H1</h1>'' 1 (Some ''jane doe.v2''),
                  PostPreviewPdf ''<h1>H1</h1>'', CreateObjectURL ''blob:1''])"
  by (simp add: handleExtractAndGenerate_def ex_upload_def ex_generated_def initial_editor_def
       secureApiRequest_def saveResume_def updatePdfPreview_def auto_title_def
       strip_extension_def ex_editor_def js_or_def Let_def)

lemma ex_typing_nonblank: "js_trim (userPrompt ex_typing) \<noteq> []"
  by (simp add: ex_typing_def js_trim_def is_js_whitespace_def)

lemma ex_typing_currentCode: "currentCodeOf ex_typing = ''<h1>H1</h1>''"
  by (simp add: ex_typing_def ex_editor_def currentCodeOf_def)

lemma ex_typing_edit:
  "handleSendMessage ex_typing (Response ex_changed) =
     (ex_typing\<lparr>userPrompt := [],
        chatMessages := chatMessages ex_typing @ [userMessageOf ex_typing,
            \<lparr> role = ''ai'', content = ''Done.'', codeVersionId = Some 2 \<rparr>],
        codeHistory := [\<lparr> entry_id = 1, entry_code = ''<h1>H1</h1>'' \<rparr>,
                        \<lparr> entry_id = 2, entry_code = ''<h1>H2</h1>'' \<rparr>],
        currentCodeVersionId := 2, htmlCode := ''<h1>H2</h1>''\<rparr>,
      [PostModifyResume (modifyRequestOf ex_typing)],
      [SaveResume ''<h1>H2</h1>'' 2 None, UpdatePdfPreview ''<h1>H2</h1>''])"
  using ex_typing_nonblank
  by (simp add: handleSendMessage_def secureApiRequest_def Let_def userMessageOf_def
        ex_typing_currentCode ex_changed_def)
     (simp add: ex_typing_def ex_editor_def)

text \<open>
  With the database and the preview service answering, and nothing delayed: the old
  object URL is revoked at once, then the preview request goes out, then the update,
  then the new object URL is created.
\<close>

lemma sched_send:
  assumes "docId st = Some i" "i \<noteq> []" "i \<noteq> ''new''"
  shows "run_calls (DbData u) (Response b) [] st
           [SaveResume h v None, UpdatePdfPreview c]
    = (st\<lparr>isSaving := False, pdfUrl := Some b, isGeneratingPreview := False\<rparr>,
       (case pdfUrl st of None \<Rightarrow> [] | Some x \<Rightarrow> if x = [] then [] else [RevokeObjectURL x])
       @ [PostPreviewPdf c, UpdateResume i h v None, CreateObjectURL b])"
  using assms
  by (simp add: run_calls_def settle_def Let_def)

lemma sched_undo:
  assumes "docId st = Some i" "i \<noteq> []" "i \<noteq> ''new''"
  shows "run_calls (DbData u) (Response b) [] st
           [UpdatePdfPreview c, SaveResume h v None]
    = (st\<lparr>isGeneratingPreview := False, pdfUrl := Some b, isSaving := False\<rparr>,
       (case pdfUrl st of None \<Rightarrow> [] | Some x \<Rightarrow> if x = [] then [] else [RevokeObjectURL x])
       @ [PostPreviewPdf c, UpdateResume i h v None, CreateObjectURL b])"
  using assms
  by (simp add: run_calls_def settle_def Let_def)


lemma ex_edit_trace:
  "do_action ex_editor ex_edit =
     (ex_editor\<lparr>chatMessages := chatMessages ex_editor @
            [\<lparr> role = ''user'', content = ''make the font larger'', codeVersionId = None \<rparr>,
             \<lparr> role = ''ai'', content = ''Done.'', codeVersionId = Some 2 \<rparr>],
        codeHistory := [\<lparr> entry_id = 1, entry_code = ''<h1>H1</h1>'' \<rparr>,
                        \<lparr> entry_id = 2, entry_code = ''<h1>H2</h1>'' \<rparr>],
        currentCodeVersionId := 2, htmlCode := ''<h1>H2</h1>'', pdfUrl := Some ''blob:2''\<rparr>,
      [PostModifyResume (modifyRequestOf ex_typing),
       RevokeObjectURL ''blob:1'', PostPreviewPdf ''<h1>H2</h1>'',
       UpdateResume ''r-17'' ''<h1>H2</h1>'' 2 None, CreateObjectURL ''blob:2''])"
proof -
  let ?st = "fst (handleSendMessage ex_typing (Response ex_changed))"
  have d: "docId ?st = Some ''r-17''" "pdfUrl ?st = Some ''blob:1''"
    unfolding ex_typing_edit by (simp_all add: ex_typing_def ex_editor_def)
  have r: "run_calls (DbData ()) (Response ''blob:2'') [] ?st
             [SaveResume ''<h1>H2</h1>'' 2 None, UpdatePdfPreview ''<h1>H2</h1>'']
           = (?st\<lparr>isSaving := False, pdfUrl := Some ''blob:2'', isGeneratingPreview := False\<rparr>,
              [RevokeObjectURL ''blob:1'', PostPreviewPdf ''<h1>H2</h1>'',
               UpdateResume ''r-17'' ''<h1>H2</h1>'' 2 None, CreateObjectURL ''blob:2''])"
    using sched_send[of ?st "''r-17''" "()" "''blob:2''" "''<h1>H2</h1>''" 2 "''<h1>H2</h1>''"] d
    by simp
  have "do_action ex_editor ex_edit =
          (?st\<lparr>isSaving := False, pdfUrl := Some ''blob:2'', isGeneratingPreview := False\<rparr>,
           PostModifyResume (modifyRequestOf ex_typing) #
              [RevokeObjectURL ''blob:1'', PostPreviewPdf ''<h1>H2</h1>'',
               UpdateResume ''r-17'' ''<h1>H2</h1>'' 2 None, CreateObjectURL ''blob:2''])"
    using r by (simp add: ex_edit_def ex_typing_def[symmetric] Let_def ex_typing_edit)
  then show ?thesis
    unfolding ex_typing_edit
    by (simp add: userMessageOf_def) (simp add: ex_typing_def ex_editor_def)
qed


lemma ex_edited_eq:
  "ex_edited =
     ex_editor\<lparr>chatMessages := chatMessages ex_editor @
            [\<lparr> role = ''user'', content = ''make the font larger'', codeVersionId = None \<rparr>,
             \<lparr> role = ''ai'', content = ''Done.'', codeVersionId = Some 2 \<rparr>],
        codeHistory := [\<lparr> entry_id = 1, entry_code = ''<h1>H1</h1>'' \<rparr>,
                        \<lparr> entry_id = 2, entry_code = ''<h1>H2</h1>'' \<rparr>],
        currentCodeVersionId := 2, htmlCode := ''<h1>H2</h1>'', pdfUrl := Some ''blob:2''\<rparr>"
  unfolding ex_edited_def ex_edit_trace by simp

lemma ex_edited_undo:
  "handleUndo ex_edited =
     (ex_edited\<lparr>htmlCode := ''<h1>H1</h1>'', currentCodeVersionId := 1\<rparr>,
      [UpdatePdfPreview ''<h1>H1</h1>'', SaveResume ''<h1>H1</h1>'' 1 None])"
  by (simp add: ex_edited_eq handleUndo_def Let_def)

lemma ex_undo_trace:
  "do_action ex_edited (Undo (DbData ()) (Response ''blob:3'') []) =
     (ex_edited\<lparr>htmlCode := ''<h1>H1</h1>'', currentCodeVersionId := 1,
                 pdfUrl := Some ''blob:3''\<rparr>,
      [RevokeObjectURL ''blob:2'', PostPreviewPdf ''<h1>H1</h1>'',
       UpdateResume ''r-17'' ''<h1>H1</h1>'' 1 None, CreateObjectURL ''blob:3''])"
proof -
  let ?st = "ex_edited\<lparr>htmlCode := ''<h1>H1</h1>'', currentCodeVersionId := 1\<rparr>"
  have d: "docId ?st = Some ''r-17''" "pdfUrl ?st = Some ''blob:2''"
    "isSaving ?st = False" "isGeneratingPreview ?st = False"
    by (simp_all add: ex_edited_eq ex_editor_def)
  from sched_undo[of ?st "''r-17''" "()" "''blob:3''" "''<h1>H1</h1>''" "''<h1>H1</h1>''" 1] d
  have "run_calls (DbData ()) (Response ''blob:3'') [] ?st
           [UpdatePdfPreview ''<h1>H1</h1>'', SaveResume ''<h1>H1</h1>'' 1 None]
        = (?st\<lparr>isGeneratingPreview := False, pdfUrl := Some ''blob:3'', isSaving := False\<rparr>,
           [RevokeObjectURL ''blob:2'', PostPreviewPdf ''<h1>H1</h1>'',
            UpdateResume ''r-17'' ''<h1>H1</h1>'' 1 None, CreateObjectURL ''blob:3''])"
    by simp
  moreover have "?st\<lparr>isGeneratingPreview := False, pdfUrl := Some ''blob:3'', isSaving := False\<rparr>
        = ex_edited\<lparr>htmlCode := ''<h1>H1</h1>'', currentCodeVersionId := 1,
                 pdfUrl := Some ''blob:3''\<rparr>"
    by (simp add: ex_edited_eq ex_editor_def)
  ultimately show ?thesis
    by (simp add: ex_edited_undo Let_def)
qed

lemma ex_undone_eq:
  "ex_undone = ex_edited\<lparr>htmlCode := ''<h1>H1</h1>'', currentCodeVersionId := 1,
                  pdfUrl := Some ''blob:3''\<rparr>"
  unfolding ex_undone_def ex_undo_trace by simp

lemma ex_undone_edit:
  "handleSendMessage (ex_undone\<lparr>userPrompt := ''make it bold''\<rparr>) (Response ex_second) =
     (ex_undone\<lparr>chatMessages := chatMessages ex_undone @
            [\<lparr> role = ''user'', content = ''make it bold'', codeVersionId = None \<rparr>,
             \<lparr> role = ''ai'', content = ''Bold now.'', codeVersionId = Some 2 \<rparr>],
        codeHistory := [\<lparr> entry_id = 1, entry_code = ''<h1>H1</h1>'' \<rparr>,
                        \<lparr> entry_id = 2, entry_code = ''<h1>H2</h1>'' \<rparr>,
                        \<lparr> entry_id = 2, entry_code = ''<h1>H3</h1>'' \<rparr>],
        currentCodeVersionId := 2, htmlCode := ''<h1>H3</h1>''\<rparr>,
      [PostModifyResume (modifyRequestOf (ex_undone\<lparr>userPrompt := ''make it bold''\<rparr>))],
      [SaveResume ''<h1>H3</h1>'' 2 None, UpdatePdfPreview ''<h1>H3</h1>''])"
  by (simp add: ex_undone_eq ex_edited_eq handleSendMessage_def Let_def
        secureApiRequest_def ex_editor_def ex_second_def js_trim_def
        is_js_whitespace_def currentCodeOf_def)

lemma ex_reedited_eq:
  "ex_reedited
   = ex_undone\<lparr>chatMessages := chatMessages ex_undone @
            [\<lparr> role = ''user'', content = ''make it bold'', codeVersionId = None \<rparr>,
             \<lparr> role = ''ai'', content = ''Bold now.'', codeVersionId = Some 2 \<rparr>],
        codeHistory := [\<lparr> entry_id = 1, entry_code = ''<h1>H1</h1>'' \<rparr>,
                        \<lparr> entry_id = 2, entry_code = ''<h1>H2</h1>'' \<rparr>,
                        \<lparr> entry_id = 2, entry_code = ''<h1>H3</h1>'' \<rparr>],
        currentCodeVersionId := 2, htmlCode := ''<h1>H3</h1>'', pdfUrl := Some ''blob:4''\<rparr>"
proof -
  let ?st = "fst (handleSendMessage (ex_undone\<lparr>userPrompt := ''make it bold''\<rparr>)
                    (Response ex_second))"
  have d: "docId ?st = Some ''r-17''"
    "isSaving ?st = False" "isGeneratingPreview ?st = False"
    unfolding ex_undone_edit by (simp_all add: ex_undone_eq ex_edited_eq ex_editor_def)
  from sched_send[of ?st "''r-17''" "()" "''blob:4''" "''<h1>H3</h1>''" 2 "''<h1>H3</h1>''"] d
  have "fst (run_calls (DbData ()) (Response ''blob:4'') [] ?st
           [SaveResume ''<h1>H3</h1>'' 2 None, UpdatePdfPreview ''<h1>H3</h1>''])
        = ?st\<lparr>isSaving := False, pdfUrl := Some ''blob:4'', isGeneratingPreview := False\<rparr>"
    by simp
  then have "ex_reedited
        = ?st\<lparr>isSaving := False, pdfUrl := Some ''blob:4'', isGeneratingPreview := False\<rparr>"
    by (simp add: ex_reedited_def Let_def ex_undone_edit)
  then show ?thesis
    unfolding ex_undone_edit
    by (simp add: ex_undone_eq ex_edited_eq ex_editor_def)
qed

lemma run_session_fst3:
  "fst (run_session st [a, b, c]) = fst (do_action (fst (do_action (fst (do_action st a)) b)) c)"
  by (simp add: Let_def)

lemma ex_session_end: "fst (run_session ex_editor ex_edit_undo_edit) = ex_reedited"
  unfolding ex_edit_undo_edit_def run_session_fst3 ex_reedited_def ex_undone_def ex_edited_def ..

section \<open>Persistence without a document id\<close>

lemma saveResume_noop: "noDocumentId st \<Longrightarrow> saveResume st h v t r = (st, [])"
  by (auto simp: noDocumentId_def saveResume_def)

lemma isUpdateResume_iff: "isUpdateResume e = (\<exists>i h v t. e = UpdateResume i h v t)"
  by (cases e) (simp_all add: isUpdateResume_def)

lemma run_calls_noDoc:
  assumes "noDocumentId st"
  shows "noDocumentId (fst (run_calls sr pr sched st cs))
         \<and> (\<forall>e \<in> set (snd (run_calls sr pr sched st cs)). \<not> isUpdateResume e)"
proof
  from run_calls_same[of st sr pr sched cs] assms
  show "noDocumentId (fst (run_calls sr pr sched st cs))"
    by (simp add: sameDocument_def noDocumentId_def)
next
  show "\<forall>e \<in> set (snd (run_calls sr pr sched st cs)). \<not> isUpdateResume e"
  proof
    fix e assume e: "e \<in> set (snd (run_calls sr pr sched st cs))"
    show "\<not> isUpdateResume e"
    proof
      assume "isUpdateResume e"
      then obtain i h v t where "e = UpdateResume i h v t"
        by (auto simp: isUpdateResume_iff)
      with e run_calls_update[of i h v t sr pr sched st cs] assms
      show False by (auto simp: noDocumentId_def)
    qed
  qed
qed

lemma handleSendMessage_docId: "docId (fst (handleSendMessage st r)) = docId st"
  by (cases r) (simp_all add: handleSendMessage_def secureApiRequest_def Let_def)

lemma handleSendMessage_no_update:
  "e \<in> set (fst (snd (handleSendMessage st r))) \<Longrightarrow> \<not> isUpdateResume e"
  by (cases r)
     (auto simp: handleSendMessage_def secureApiRequest_def Let_def isUpdateResume_def
        split: if_splits)

lemma handleUndo_docId: "docId (fst (handleUndo st)) = docId st"
  by (simp add: handleUndo_def Let_def)

lemma do_action_noDoc:
  "noDocumentId st \<Longrightarrow>
     noDocumentId (fst (do_action st a))
     \<and> (\<forall>e \<in> set (snd (do_action st a)). \<not> isUpdateResume e)"
proof (cases a)
  case (Send p r sr pr sched)
  assume n: "noDocumentId st"
  let ?h = "handleSendMessage (st\<lparr>userPrompt := p\<rparr>) r"
  have "noDocumentId (fst ?h)"
    using n by (simp add: noDocumentId_def handleSendMessage_docId)
  from run_calls_noDoc[OF this, of sr pr sched "snd (snd ?h)"]
       handleSendMessage_no_update[of _ "st\<lparr>userPrompt := p\<rparr>" r]
  show ?thesis using Send by (auto simp: Let_def)
next
  case (Undo sr pr sched)
  assume n: "noDocumentId st"
  have "noDocumentId (fst (handleUndo st))"
    using n by (simp add: noDocumentId_def handleUndo_docId)
  from run_calls_noDoc[OF this, of sr pr sched "snd (handleUndo st)"]
  show ?thesis using Undo by (auto simp: Let_def)
qed

lemma run_session_noDoc:
  "noDocumentId st \<Longrightarrow> \<forall>e \<in> set (snd (run_session st as)). \<not> isUpdateResume e"
proof (induction as arbitrary: st)
  case Nil
  then show ?case by simp
next
  case (Cons a as)
  from do_action_noDoc[OF Cons.prems, of a]
  have a: "noDocumentId (fst (do_action st a))"
    and b: "\<forall>e \<in> set (snd (do_action st a)). \<not> isUpdateResume e" by blast+
  from Cons.IH[OF a] b show ?case by (auto simp: Let_def)
qed

text \<open>
  C10. When the route parameter is absent, empty or \<open>new\<close>, \<^verbatim>\<open>saveResume\<close> returns at
  once: the state is untouched (not even the saving flag), nothing is written to the
  \<^verbatim>\<open>resumes\<close> table and nothing is logged, however the database would have answered.
  Hence no sequence of prompts and undos in such a session ever writes the document.
\<close>

theorem saveResume_without_document_id:
  assumes "docId st = None \<or> docId st = Some [] \<or> docId st = Some ''new''"
  shows "saveResume st newHtml newVersion newTitle r = (st, [])
         \<and> (\<forall>e \<in> set (snd (run_session st as)). \<not> isUpdateResume e)"
  using assms saveResume_noop[of st] run_session_noDoc[of st as]
  by (simp add: noDocumentId_def)

theorem saveResume_without_document_id_witness:
  "docId ex_unsaved = Some ''new''
   \<and> saveResume ex_unsaved ''<h1>H2</h1>'' 2 None DbError = (ex_unsaved, [])
   \<and> filter isUpdateResume (snd (run_session ex_unsaved
          [Send ''make the font larger'' (Response ex_changed) (DbData ()) (Response ''blob:2'') [],
           Undo (DbData ()) (Response ''blob:3'') []])) = []"
proof -
  have a: "docId ex_unsaved = Some ''new''"
    by (simp add: ex_unsaved_def)
  then have b: "docId ex_unsaved = None \<or> docId ex_unsaved = Some []
                \<or> docId ex_unsaved = Some ''new''"
    by simp
  have "saveResume ex_unsaved ''<h1>H2</h1>'' 2 None DbError = (ex_unsaved, [])
        \<and> (\<forall>e \<in> set (snd (run_session ex_unsaved
          [Send ''make the font larger'' (Response ex_changed) (DbData ()) (Response ''blob:2'') [],
           Undo (DbData ()) (Response ''blob:3'') []])). \<not> isUpdateResume e)"
    by (rule saveResume_without_document_id[OF b])
  with a show ?thesis
    by (simp only: filter_empty_conv) blast
qed

section \<open>A turn of the conversation\<close>

text \<open>
  C4. When the prompt is not blank and the call to the edit service fails (no token,
  a transport error, or a response with \<^verbatim>\<open>success\<close> false), the handler appends the
  user's message and one message of role \<open>ai\<close> that reports the failure; the current
  version id, the history and the current HTML stay as they were, no save or preview
  is started, and the request went out at most once.
\<close>

theorem edit_failure_leaves_document:
  assumes "js_trim (userPrompt st) \<noteq> []"
    and "r = TokenError \<or> r = RequestError \<or> (\<exists>d. r = Response d \<and> \<not> resp_success d)"
  shows "\<exists>st' evs. handleSendMessage st r = (st', evs, [])
           \<and> currentCodeVersionId st' = currentCodeVersionId st
           \<and> codeHistory st' = codeHistory st
           \<and> htmlCode st' = htmlCode st
           \<and> chatMessages st' = chatMessages st @
                [userMessageOf st,
                 \<lparr> role = ''ai'', content = failureText r, codeVersionId = None \<rparr>]
           \<and> length (filter isPostModifyResume evs) \<le> 1"
  using assms
  by (auto simp: handleSendMessage_def secureApiRequest_def Let_def userMessageOf_def
        failureText_def isPostModifyResume_def)

theorem edit_failure_leaves_document_witness:
  "js_trim (userPrompt ex_typing) \<noteq> []
   \<and> \<not> resp_success ex_rejected
   \<and> (\<exists>st' evs. handleSendMessage ex_typing (Response ex_rejected) = (st', evs, [])
           \<and> currentCodeVersionId st' = 1
           \<and> codeHistory st' = [\<lparr> entry_id = 1, entry_code = ''<h1>H1</h1>'' \<rparr>]
           \<and> htmlCode st' = ''<h1>H1</h1>''
           \<and> chatMessages st' = chatMessages ex_typing @
                [userMessageOf ex_typing,
                 \<lparr> role = ''ai'', content = ''Sorry, I couldn't process that request.'',
                    codeVersionId = None \<rparr>]
           \<and> length (filter isPostModifyResume evs) \<le> 1)"
proof -
  have a: "js_trim (userPrompt ex_typing) \<noteq> []" by (rule ex_typing_nonblank)
  have b: "\<not> resp_success ex_rejected" by (simp add: ex_rejected_def)
  have c: "Response ex_rejected = TokenError \<or> Response ex_rejected = RequestError
           \<or> (\<exists>d. Response ex_rejected = Response d \<and> \<not> resp_success d)"
    using b by simp
  from edit_failure_leaves_document[OF a c] a b show ?thesis
    by (simp add: failureText_def ex_typing_def ex_editor_def)
qed

lemma run_calls_after_edit:
  "UpdateResume i h' v' t \<in> set (snd (run_calls sr pr sched st [SaveResume h v None, UpdatePdfPreview c]))
    \<Longrightarrow> h' = h \<and> v' = v"
  by (auto dest: run_calls_update)

text \<open>
  C7. When the prompt is not blank and the service answers with \<^verbatim>\<open>success\<close> true and
  an HTML that differs from the HTML that was sent, the handler appends the entry
  (current id + 1, new HTML), makes it current, and starts exactly one save, with that
  HTML and that id. The handler itself writes nothing, and whatever the started calls
  write to the \<^verbatim>\<open>resumes\<close> table, in whatever order they go on, carries that HTML and
  that id.
\<close>

theorem accepted_edit_saves_new_pair:
  assumes "js_trim (userPrompt st) \<noteq> []"
    and "resp_success d"
    and "resp_html_code d \<noteq> currentCodeOf st"
  shows "\<exists>st' evs calls. handleSendMessage st (Response d) = (st', evs, calls)
           \<and> codeHistory st' = codeHistory st @
                [\<lparr> entry_id = currentCodeVersionId st + 1, entry_code = resp_html_code d \<rparr>]
           \<and> currentCodeVersionId st' = currentCodeVersionId st + 1
           \<and> htmlCode st' = resp_html_code d
           \<and> filter isSaveCall calls =
                [SaveResume (resp_html_code d) (currentCodeVersionId st + 1) None]
           \<and> filter isUpdateResume evs = []
           \<and> (\<forall>sr pr sched i h v t.
                 UpdateResume i h v t \<in> set (snd (run_calls sr pr sched st' calls)) \<longrightarrow>
                 h = resp_html_code d \<and> v = currentCodeVersionId st + 1)"
proof -
  let ?n = "currentCodeVersionId st + 1"
  let ?c = "resp_html_code d"
  obtain st' where h: "handleSendMessage st (Response d)
          = (st', [PostModifyResume (modifyRequestOf st)],
             [SaveResume ?c ?n None, UpdatePdfPreview ?c])"
     and s: "codeHistory st' = codeHistory st @ [\<lparr> entry_id = ?n, entry_code = ?c \<rparr>]"
       "currentCodeVersionId st' = ?n" "htmlCode st' = ?c"
    using assms by (simp add: handleSendMessage_def secureApiRequest_def Let_def)
  have "\<forall>sr pr sched i h v t.
          UpdateResume i h v t
            \<in> set (snd (run_calls sr pr sched st' [SaveResume ?c ?n None, UpdatePdfPreview ?c])) \<longrightarrow>
          h = ?c \<and> v = ?n"
    using run_calls_after_edit by blast
  with h s show ?thesis by (simp add: isSaveCall_def isUpdateResume_def)
qed

lemma ex_typing_calls:
  "run_calls (DbData ()) (Response ''blob:2'') []
     (fst (handleSendMessage ex_typing (Response ex_changed)))
     [SaveResume ''<h1>H2</h1>'' 2 None, UpdatePdfPreview ''<h1>H2</h1>'']
   = ((fst (handleSendMessage ex_typing (Response ex_changed)))
        \<lparr>isSaving := False, pdfUrl := Some ''blob:2'', isGeneratingPreview := False\<rparr>,
      [RevokeObjectURL ''blob:1'', PostPreviewPdf ''<h1>H2</h1>'',
       UpdateResume ''r-17'' ''<h1>H2</h1>'' 2 None, CreateObjectURL ''blob:2''])"
proof -
  let ?st = "fst (handleSendMessage ex_typing (Response ex_changed))"
  have d: "docId ?st = Some ''r-17''" "pdfUrl ?st = Some ''blob:1''"
    unfolding ex_typing_edit by (simp_all add: ex_typing_def ex_editor_def)
  from sched_send[of ?st "''r-17''" "()" "''blob:2''" "''<h1>H2</h1>''" 2 "''<h1>H2</h1>''"] d
  show ?thesis by simp
qed

theorem accepted_edit_saves_new_pair_witness:
  "js_trim (userPrompt ex_typing) \<noteq> []
   \<and> resp_success ex_changed
   \<and> resp_html_code ex_changed \<noteq> currentCodeOf ex_typing
   \<and> (\<exists>st' evs calls. handleSendMessage ex_typing (Response ex_changed) = (st', evs, calls)
           \<and> codeHistory st' = [\<lparr> entry_id = 1, entry_code = ''<h1>H1</h1>'' \<rparr>,
                                 \<lparr> entry_id = 2, entry_code = ''<h1>H2</h1>'' \<rparr>]
           \<and> currentCodeVersionId st' = 2
           \<and> htmlCode st' = ''<h1>H2</h1>''
           \<and> filter isSaveCall calls = [SaveResume ''<h1>H2</h1>'' 2 None]
           \<and> snd (run_calls (DbData ()) (Response ''blob:2'') [] st' calls) =
                [RevokeObjectURL ''blob:1'', PostPreviewPdf ''<h1>H2</h1>'',
                 UpdateResume ''r-17'' ''<h1>H2</h1>'' 2 None, CreateObjectURL ''blob:2''])"
proof -
  have a: "js_trim (userPrompt ex_typing) \<noteq> []" by (rule ex_typing_nonblank)
  have b: "resp_success ex_changed" by (simp add: ex_changed_def)
  have c: "resp_html_code ex_changed \<noteq> currentCodeOf ex_typing"
    by (simp add: ex_changed_def ex_typing_currentCode)
  from accepted_edit_saves_new_pair[OF a b c] obtain st' evs calls where
    h: "handleSendMessage ex_typing (Response ex_changed) = (st', evs, calls)"
    and s: "codeHistory st' = codeHistory ex_typing @
                [\<lparr> entry_id = currentCodeVersionId ex_typing + 1,
                   entry_code = resp_html_code ex_changed \<rparr>]"
       "currentCodeVersionId st' = currentCodeVersionId ex_typing + 1"
       "htmlCode st' = resp_html_code ex_changed"
       "filter isSaveCall calls =
          [SaveResume (resp_html_code ex_changed) (currentCodeVersionId ex_typing + 1) None]"
    by blast
  from h have st': "st' = fst (handleSendMessage ex_typing (Response ex_changed))"
    and calls: "calls = [SaveResume ''<h1>H2</h1>'' 2 None, UpdatePdfPreview ''<h1>H2</h1>'']"
    by (simp_all add: ex_typing_edit)
  have r: "snd (run_calls (DbData ()) (Response ''blob:2'') [] st' calls) =
                [RevokeObjectURL ''blob:1'', PostPreviewPdf ''<h1>H2</h1>'',
                 UpdateResume ''r-17'' ''<h1>H2</h1>'' 2 None, CreateObjectURL ''blob:2'']"
    unfolding st' calls ex_typing_calls by simp
  from a b c h s r show ?thesis
    by (simp add: ex_typing_def ex_editor_def ex_changed_def)
qed

text \<open>
  C3, as the code has it. A turn with a prompt that is not blank appends two messages.
  The user's message carries no version id. The reply of role \<open>ai\<close> carries the version
  id that is current after the turn when the service answered with \<^verbatim>\<open>success\<close> true,
  and no version id when the turn failed.
\<close>

theorem only_successful_reply_carries_version:
  assumes "js_trim (userPrompt st) \<noteq> []"
  shows "\<exists>st' evs calls a. handleSendMessage st r = (st', evs, calls)
           \<and> chatMessages st' = chatMessages st @
                [\<lparr> role = ''user'', content = userPrompt st, codeVersionId = None \<rparr>, a]
           \<and> role a = ''ai''
           \<and> codeVersionId a =
               (if succeeded r then Some (currentCodeVersionId st') else None)"
  using assms
  by (cases r)
     (auto simp: handleSendMessage_def secureApiRequest_def Let_def succeeded_def)

theorem only_successful_reply_carries_version_witness:
  "js_trim (userPrompt ex_typing) \<noteq> []
   \<and> succeeded (Response ex_changed)
   \<and> (\<exists>st' evs calls a. handleSendMessage ex_typing (Response ex_changed) = (st', evs, calls)
           \<and> chatMessages st' = chatMessages ex_typing @
                [\<lparr> role = ''user'', content = ''make the font larger'',
                   codeVersionId = None \<rparr>, a]
           \<and> role a = ''ai''
           \<and> currentCodeVersionId st' = 2
           \<and> codeVersionId a = Some 2)"
proof -
  have a: "js_trim (userPrompt ex_typing) \<noteq> []" by (rule ex_typing_nonblank)
  have b: "succeeded (Response ex_changed)" by (simp add: succeeded_def ex_changed_def)
  have p: "userPrompt ex_typing = ''make the font larger''" by (simp add: ex_typing_def)
  from only_successful_reply_carries_version[OF a, of "Response ex_changed"]
  obtain st' evs calls m where
    h: "handleSendMessage ex_typing (Response ex_changed) = (st', evs, calls)"
    and c: "chatMessages st' = chatMessages ex_typing @
              [\<lparr> role = ''user'', content = userPrompt ex_typing, codeVersionId = None \<rparr>, m]"
      "role m = ''ai''"
      "codeVersionId m = (if succeeded (Response ex_changed)
                          then Some (currentCodeVersionId st') else None)"
    by blast
  have "currentCodeVersionId st' = 2"
    using h unfolding ex_typing_edit by auto
  with a b h c p show ?thesis by simp
qed

text \<open>
  C3, as stated, fails: in the turn of the example the user's message (the second
  element of the chat) is created without a version id, while the current id after the
  turn is 2.
\<close>

theorem user_message_has_no_version:
  "chatMessages (fst (handleSendMessage ex_typing (Response ex_changed))) =
     chatMessages ex_typing @
       [\<lparr> role = ''user'', content = ''make the font larger'', codeVersionId = None \<rparr>,
        \<lparr> role = ''ai'', content = ''Done.'', codeVersionId = Some 2 \<rparr>]
   \<and> currentCodeVersionId (fst (handleSendMessage ex_typing (Response ex_changed))) = 2
   \<and> codeVersionId (chatMessages (fst (handleSendMessage ex_typing (Response ex_changed))) ! 1)
       \<noteq> Some (currentCodeVersionId (fst (handleSendMessage ex_typing (Response ex_changed))))"
  unfolding ex_typing_edit
  by (simp add: userMessageOf_def) (simp add: ex_typing_def ex_editor_def)

text \<open>
  C8. When the prompt is not blank, any request that the turn sends to the edit
  service carries as history the last five \<^verbatim>\<open>{ role, content }\<close> pairs of the
  conversation, the new user message included, in order (all of them when there are
  fewer than five), and the turn sends no second request.
\<close>

theorem request_history_is_last_five:
  assumes "js_trim (userPrompt st) \<noteq> []"
    and "PostModifyResume q \<in> set (fst (snd (handleSendMessage st r)))"
  shows "req_history q =
           drop (length (chatMessages st) + 1 - 5)
             (map (\<lambda>m. (role m, content m)) (chatMessages st) @ [(''user'', userPrompt st)])
         \<and> length (req_history q) = min 5 (length (chatMessages st) + 1)
         \<and> filter isPostModifyResume (fst (snd (handleSendMessage st r)))
             = [PostModifyResume q]"
  using assms
  by (cases r)
     (auto simp: handleSendMessage_def secureApiRequest_def Let_def modifyRequestOf_def
        slice_last5_def isPostModifyResume_def split: if_splits)

lemma ex_long_nonblank: "js_trim (userPrompt ex_long) \<noteq> []"
  using ex_typing_nonblank by (simp add: ex_long_def)

lemma ex_long_sent:
  "fst (snd (handleSendMessage ex_long (Response ex_unchanged)))
     = [PostModifyResume (modifyRequestOf ex_long)]"
  using ex_long_nonblank
  by (simp add: handleSendMessage_def secureApiRequest_def Let_def ex_unchanged_def)

theorem request_history_is_last_five_witness:
  "js_trim (userPrompt ex_long) \<noteq> []
   \<and> PostModifyResume (modifyRequestOf ex_long)
        \<in> set (fst (snd (handleSendMessage ex_long (Response ex_unchanged))))
   \<and> length (chatMessages ex_long) = 7
   \<and> req_history (modifyRequestOf ex_long) =
        [(''user'', ''m4''), (''ai'', ''m5''), (''user'', ''m6''), (''ai'', ''m7''),
         (''user'', ''make the font larger'')]
   \<and> length (req_history (modifyRequestOf ex_long)) = 5"
proof -
  have a: "js_trim (userPrompt ex_long) \<noteq> []" by (rule ex_long_nonblank)
  have b: "PostModifyResume (modifyRequestOf ex_long)
        \<in> set (fst (snd (handleSendMessage ex_long (Response ex_unchanged))))"
    by (simp add: ex_long_sent)
  from request_history_is_last_five[OF a b] a b show ?thesis
    by (simp add: ex_long_def ex_typing_def ex_editor_def)
qed

section \<open>Resuming a stored document\<close>

text \<open>
  C9. When the stored row is loaded, the title becomes the stored title (or
  \<open>Untitled Resume\<close> when that is absent or empty). If the stored HTML is longer than
  50 characters, the history becomes the single entry (stored version, stored HTML),
  that id becomes current, the editor moves to step 2 and exactly one preview of that
  HTML is started. Otherwise history, current id, HTML and step stay as they were and
  no preview is started.
\<close>

theorem resume_initialises_history_iff_long:
  "\<exists>st' calls. fetchResumeData st rid (DbData (Some row)) = (st', [SelectResume rid], calls)
     \<and> resumeTitle st' = js_or (row_title row) ''Untitled Resume''
     \<and> (case row_html_content row of
          None \<Rightarrow>
            codeHistory st' = codeHistory st \<and> currentCodeVersionId st' = currentCodeVersionId st
            \<and> htmlCode st' = htmlCode st \<and> step st' = step st \<and> calls = []
        | Some h \<Rightarrow>
            if length h > 50 then
              codeHistory st' = [\<lparr> entry_id = row_version row, entry_code = h \<rparr>]
              \<and> currentCodeVersionId st' = row_version row
              \<and> htmlCode st' = h \<and> step st' = 2 \<and> calls = [UpdatePdfPreview h]
            else
              codeHistory st' = codeHistory st
              \<and> currentCodeVersionId st' = currentCodeVersionId st
              \<and> htmlCode st' = htmlCode st \<and> step st' = step st \<and> calls = [])"
  by (auto simp: fetchResumeData_def Let_def split: option.splits)

theorem resume_initialises_history_iff_long_witness:
  "(\<exists>st' calls. fetchResumeData (initial_editor (Some ''r-17'')) ''r-17'' (DbData (Some ex_row_long))
                   = (st', [SelectResume ''r-17''], calls)
       \<and> resumeTitle st' = ''CV''
       \<and> codeHistory st' = [\<lparr> entry_id = 4, entry_code = replicate 51 (CHR ''x'') \<rparr>]
       \<and> currentCodeVersionId st' = 4 \<and> step st' = 2
       \<and> calls = [UpdatePdfPreview (replicate 51 (CHR ''x''))])
   \<and> (\<exists>st' calls. fetchResumeData (initial_editor (Some ''r-17'')) ''r-17'' (DbData (Some ex_row_short))
                   = (st', [SelectResume ''r-17''], calls)
       \<and> resumeTitle st' = ''CV''
       \<and> codeHistory st' = [] \<and> step st' = 1 \<and> calls = [])"
proof -
  have l: "row_html_content ex_row_long = Some (replicate 51 (CHR ''x''))"
    "row_version ex_row_long = 4" "row_title ex_row_long = Some ''CV''"
    by (simp_all add: ex_row_long_def)
  have s: "row_html_content ex_row_short = Some (replicate 50 (CHR ''x''))"
    "row_title ex_row_short = Some ''CV''"
    by (simp_all add: ex_row_short_def)
  have i: "codeHistory (initial_editor (Some ''r-17'')) = []"
    "step (initial_editor (Some ''r-17'')) = 1"
    by (simp_all add: initial_editor_def)
  from resume_initialises_history_iff_long[of "initial_editor (Some ''r-17'')" "''r-17''" ex_row_long]
       resume_initialises_history_iff_long[of "initial_editor (Some ''r-17'')" "''r-17''" ex_row_short]
  show ?thesis
    unfolding l s i by (simp add: js_or_def) blast
qed

section \<open>Version ids over a session\<close>

lemma updatePdfPreview_history:
  "codeHistory (fst (updatePdfPreview st c r)) = codeHistory st
   \<and> currentCodeVersionId (fst (updatePdfPreview st c r)) = currentCodeVersionId st"
  by (cases r) (simp_all add: updatePdfPreview_def secureApiRequest_def Let_def)

lemma saveResume_history:
  "codeHistory (fst (saveResume st h v t r)) = codeHistory st
   \<and> currentCodeVersionId (fst (saveResume st h v t r)) = currentCodeVersionId st"
  by (cases r) (auto simp: saveResume_def Let_def split: option.splits)

lemma run_calls_history:
  "codeHistory (fst (run_calls sr pr sched st cs)) = codeHistory st
   \<and> currentCodeVersionId (fst (run_calls sr pr sched st cs)) = currentCodeVersionId st"
  using run_calls_same[of st sr pr sched cs] by (simp add: sameDocument_def)

lemma handleSendMessage_history:
  "codeHistory (fst (handleSendMessage (st\<lparr>userPrompt := p\<rparr>) r)) =
     (if acceptedEdit st (Send p r sr pr sched)
      then codeHistory st @ [\<lparr> entry_id = currentCodeVersionId st + 1,
                               entry_code = (case r of Response d \<Rightarrow> resp_html_code d | _ \<Rightarrow> []) \<rparr>]
      else codeHistory st)
   \<and> currentCodeVersionId (fst (handleSendMessage (st\<lparr>userPrompt := p\<rparr>) r)) =
     (if acceptedEdit st (Send p r sr pr sched) then currentCodeVersionId st + 1
      else currentCodeVersionId st)"
  by (cases r)
     (auto simp: handleSendMessage_def secureApiRequest_def Let_def acceptedEdit_def)

lemma send_history:
  "codeHistory (fst (do_action st (Send p r sr pr sched))) =
     (if acceptedEdit st (Send p r sr pr sched)
      then codeHistory st @ [\<lparr> entry_id = currentCodeVersionId st + 1,
                               entry_code = (case r of Response d \<Rightarrow> resp_html_code d | _ \<Rightarrow> []) \<rparr>]
      else codeHistory st)
   \<and> currentCodeVersionId (fst (do_action st (Send p r sr pr sched))) =
     (if acceptedEdit st (Send p r sr pr sched) then currentCodeVersionId st + 1
      else currentCodeVersionId st)"
  using handleSendMessage_history[of p st r sr pr sched]
  by (simp add: Let_def run_calls_history)

lemma send_idsFromOne:
  assumes "idsFromOne st"
  shows "idsFromOne (fst (do_action st (Send p r sr pr sched)))
         \<and> length (codeHistory (fst (do_action st (Send p r sr pr sched))))
            = length (codeHistory st) + (if acceptedEdit st (Send p r sr pr sched) then 1 else 0)"
  using assms send_history[of st p r sr pr sched]
  by (auto simp: idsFromOne_def)

lemma sends_only_ids_consecutive:
  assumes "idsFromOne st" and "\<forall>a \<in> set as. isSend a"
  shows "idsFromOne (fst (run_session st as))
         \<and> length (codeHistory (fst (run_session st as)))
            = length (codeHistory st) + acceptedEdits st as"
  using assms
proof (induction as arbitrary: st)
  case Nil
  then show ?case by simp
next
  case (Cons a as)
  from Cons.prems obtain p r sr pr sched where a: "a = Send p r sr pr sched"
    by (cases a) auto
  from send_idsFromOne[OF Cons.prems(1), of p r sr pr sched] a
  have i: "idsFromOne (fst (do_action st a))"
    and l: "length (codeHistory (fst (do_action st a)))
            = length (codeHistory st) + (if acceptedEdit st a then 1 else 0)"
    by simp_all
  from Cons.IH[OF i] Cons.prems(2) l show ?case
    by (simp add: Let_def)
qed

lemma ingestion_starts_at_one:
  assumes "resumeFile st = Some f" and "selectedTemplate st = Some t" and "proc_success d"
  shows "codeHistory (fst (handleExtractAndGenerate st (Response d) sr pr))
           = [\<lparr> entry_id = 1, entry_code = proc_html_code d \<rparr>]
         \<and> currentCodeVersionId (fst (handleExtractAndGenerate st (Response d) sr pr)) = 1"
  using assms
  by (simp add: handleExtractAndGenerate_def secureApiRequest_def Let_def
        updatePdfPreview_history saveResume_history)

lemma no_undo_ids_one_to_n:
  assumes "codeHistory st = [e]" and "entry_id e = 1" and "currentCodeVersionId st = 1"
    and "\<forall>a \<in> set as. isSend a"
  shows "map entry_id (codeHistory (fst (run_session st as)))
           = map int [1..<acceptedEdits st as + 2]
         \<and> length (codeHistory (fst (run_session st as))) = acceptedEdits st as + 1"
proof -
  have "idsFromOne st" using assms(1-3) by (simp add: idsFromOne_def)
  from sends_only_ids_consecutive[OF this assms(4)] assms(1)
  show ?thesis by (simp add: idsFromOne_def)
qed

text \<open>
  C1. The session of the example: the first snapshot has id 1, an accepted edit appends
  id 2, undo returns to id 1, and the next accepted edit appends a second entry with
  id 2. The ids are then 1, 2, 2; the current id 2 names two snapshots, and the lookup
  of the current code by id finds the older one, not the HTML that is displayed.
\<close>

theorem edit_after_undo_reuses_id:
  "map entry_id (codeHistory (fst (run_session ex_editor ex_edit_undo_edit))) = [1, 2, 2]
   \<and> map entry_code (codeHistory (fst (run_session ex_editor ex_edit_undo_edit)))
       = [''<h1>H1</h1>'', ''<h1>H2</h1>'', ''<h1>H3</h1>'']
   \<and> currentCodeVersionId (fst (run_session ex_editor ex_edit_undo_edit)) = 2
   \<and> htmlCode (fst (run_session ex_editor ex_edit_undo_edit)) = ''<h1>H3</h1>''
   \<and> currentCodeOf (fst (run_session ex_editor ex_edit_undo_edit)) = ''<h1>H2</h1>''"
  unfolding ex_session_end ex_reedited_eq by (simp add: currentCodeOf_def)

section \<open>Undo and unchanged replies\<close>

text \<open>
  Undo steps from the first entry that carries the current id to the entry before it,
  and does nothing when that is the first entry or when no entry carries the id.
\<close>

lemma findIndex_none: "\<forall>e \<in> set xs. \<not> P e \<Longrightarrow> findIndex P xs = -1"
  by (induction xs) auto

lemma findIndex_first:
  "\<forall>e \<in> set pre. \<not> P e \<Longrightarrow> P c \<Longrightarrow> findIndex P (pre @ c # post) = int (length pre)"
  by (induction pre) (auto simp: Let_def)

lemma undo_steps_back:
  "(codeHistory st = pre @ p # c # post
      \<and> entry_id c = currentCodeVersionId st
      \<and> (\<forall>e \<in> set (pre @ [p]). entry_id e \<noteq> currentCodeVersionId st)
     \<longrightarrow> handleUndo st =
           (st\<lparr>htmlCode := entry_code p, currentCodeVersionId := entry_id p\<rparr>,
            [UpdatePdfPreview (entry_code p), SaveResume (entry_code p) (entry_id p) None]))
   \<and> ((codeHistory st = c # post \<and> entry_id c = currentCodeVersionId st)
        \<or> (\<forall>e \<in> set (codeHistory st). entry_id e \<noteq> currentCodeVersionId st)
     \<longrightarrow> handleUndo st = (st, []))"
proof (intro conjI impI)
  assume a: "codeHistory st = pre @ p # c # post
      \<and> entry_id c = currentCodeVersionId st
      \<and> (\<forall>e \<in> set (pre @ [p]). entry_id e \<noteq> currentCodeVersionId st)"
  let ?P = "\<lambda>item. entry_id item = currentCodeVersionId st"
  have "findIndex ?P ((pre @ [p]) @ c # post) = int (length (pre @ [p]))"
    using a by (intro findIndex_first) auto
  then have i: "findIndex ?P (codeHistory st) = int (length pre) + 1"
    using a by simp
  have "codeHistory st ! length pre = p" using a by simp
  with i show "handleUndo st =
           (st\<lparr>htmlCode := entry_code p, currentCodeVersionId := entry_id p\<rparr>,
            [UpdatePdfPreview (entry_code p), SaveResume (entry_code p) (entry_id p) None])"
    by (simp add: handleUndo_def Let_def)
next
  assume "(codeHistory st = c # post \<and> entry_id c = currentCodeVersionId st)
        \<or> (\<forall>e \<in> set (codeHistory st). entry_id e \<noteq> currentCodeVersionId st)"
  then have "findIndex (\<lambda>item. entry_id item = currentCodeVersionId st) (codeHistory st) \<le> 0"
    using findIndex_none[of "codeHistory st" "\<lambda>item. entry_id item = currentCodeVersionId st"]
    by auto
  then show "handleUndo st = (st, [])"
    by (simp add: handleUndo_def Let_def)
qed

text \<open>
  A successful reply whose HTML equals the HTML that was sent appends nothing, starts
  nothing, and is added to the chat with the unchanged current id.
\<close>

lemma identical_html_is_reply_only:
  assumes "js_trim (userPrompt st) \<noteq> []"
    and "resp_success d"
    and "resp_html_code d = currentCodeOf st"
  shows "\<exists>st'. handleSendMessage st (Response d)
                 = (st', [PostModifyResume (modifyRequestOf st)], [])
           \<and> codeHistory st' = codeHistory st
           \<and> currentCodeVersionId st' = currentCodeVersionId st
           \<and> htmlCode st' = htmlCode st
           \<and> pdfUrl st' = pdfUrl st
           \<and> chatMessages st' = chatMessages st @
                [userMessageOf st,
                 \<lparr> role = ''ai'', content = resp_reply_text d,
                    codeVersionId = Some (currentCodeVersionId st) \<rparr>]"
  using assms
  by (simp add: handleSendMessage_def secureApiRequest_def Let_def userMessageOf_def)

text \<open>
  The HTML that is sent is the displayed HTML as long as the first entry with the
  current id holds the displayed HTML.
\<close>

lemma currentCodeOf_displayed:
  assumes "find_first (\<lambda>v. entry_id v = currentCodeVersionId st) (codeHistory st) = Some e"
    and "entry_code e = htmlCode st"
  shows "currentCodeOf st = htmlCode st"
  using assms by (simp add: currentCodeOf_def)

text \<open>
  C5. The session of the example ends with the ids 1, 2, 2 and with the third entry
  displayed and current. The entry immediately before it is (2, H2). Undo is enabled
  there, and it goes to the first entry instead: H1 becomes the current HTML, 1 the
  current id, and the preview and the save that undo starts are for (H1, 1).
\<close>

theorem undo_after_reused_id_skips_entry:
  "codeHistory ex_reedited =
     [\<lparr> entry_id = 1, entry_code = ''<h1>H1</h1>'' \<rparr>,
      \<lparr> entry_id = 2, entry_code = ''<h1>H2</h1>'' \<rparr>,
      \<lparr> entry_id = 2, entry_code = ''<h1>H3</h1>'' \<rparr>]
   \<and> htmlCode ex_reedited = ''<h1>H3</h1>''
   \<and> currentCodeVersionId ex_reedited = 2
   \<and> undoDisabled ex_reedited = False
   \<and> handleUndo ex_reedited =
        (ex_reedited\<lparr>htmlCode := ''<h1>H1</h1>'', currentCodeVersionId := 1\<rparr>,
         [UpdatePdfPreview ''<h1>H1</h1>'', SaveResume ''<h1>H1</h1>'' 1 None])"
  by (simp add: ex_reedited_eq ex_undone_eq ex_edited_eq handleUndo_def undoDisabled_def Let_def)
     (simp add: ex_editor_def)

text \<open>
  C6. In the same state the current HTML is H3. A successful reply that returns
  exactly H3 is compared with H2, the code of the first entry with id 2, and so is
  taken for a change: the handler appends a fourth entry with id 3 and starts a save
  and a preview.
\<close>

theorem reply_equal_to_displayed_html_appends:
  "htmlCode ex_reedited = ''<h1>H3</h1>''
   \<and> resp_success ex_same
   \<and> resp_html_code ex_same = htmlCode ex_reedited
   \<and> map entry_id (codeHistory (fst (handleSendMessage
          (ex_reedited\<lparr>userPrompt := ''looks good''\<rparr>) (Response ex_same)))) = [1, 2, 2, 3]
   \<and> currentCodeVersionId (fst (handleSendMessage
          (ex_reedited\<lparr>userPrompt := ''looks good''\<rparr>) (Response ex_same))) = 3
   \<and> snd (snd (handleSendMessage
          (ex_reedited\<lparr>userPrompt := ''looks good''\<rparr>) (Response ex_same)))
       = [SaveResume ''<h1>H3</h1>'' 3 None, UpdatePdfPreview ''<h1>H3</h1>'']"
  by (simp add: ex_reedited_eq ex_undone_eq ex_edited_eq handleSendMessage_def Let_def
        secureApiRequest_def ex_same_def js_trim_def is_js_whitespace_def currentCodeOf_def)

section \<open>The preview\<close>

text \<open>
  A failed preview request changes nothing but the generating flag; the old object URL,
  when there is one, is revoked first, the request follows unless the token was
  missing, and the failure is logged.
\<close>

lemma updatePdfPreview_failure:
  assumes "r = TokenError \<or> r = RequestError"
  shows "updatePdfPreview st c r =
           (st\<lparr>isGeneratingPreview := False\<rparr>,
            (case pdfUrl st of None \<Rightarrow> []
             | Some u \<Rightarrow> if u = [] then [] else [RevokeObjectURL u])
            @ (if r = RequestError then [PostPreviewPdf c] else [])
            @ [ConsoleError ''Preview generation failed''])"
  using assms
  by (auto simp: updatePdfPreview_def secureApiRequest_def Let_def)

text \<open>
  C2. In the example the pane shows the preview \<open>blob:1\<close>. A preview request that fails
  has revoked \<open>blob:1\<close> before the request went out, and leaves the preview URL on it:
  the pane frames an object URL that has been released.
\<close>

theorem failed_preview_has_released_url:
  "pdfUrl ex_editor = Some ''blob:1''
   \<and> previewPane ex_editor = Frame ''blob:1''
   \<and> snd (updatePdfPreview ex_editor ''<h1>H2</h1>'' RequestError) =
       [RevokeObjectURL ''blob:1'', PostPreviewPdf ''<h1>H2</h1>'',
        ConsoleError ''Preview generation failed'']
   \<and> pdfUrl (fst (updatePdfPreview ex_editor ''<h1>H2</h1>'' RequestError)) = Some ''blob:1''
   \<and> previewPane (fst (updatePdfPreview ex_editor ''<h1>H2</h1>'' RequestError))
       = Frame ''blob:1''"
  by (simp add: updatePdfPreview_def secureApiRequest_def Let_def ex_editor_def
        previewPane_def)

end
